theory Spec2Isabelle
  imports Complex_Main "HOL-Library.Multiset" "HOL-Library.Option_ord"
begin

section \<open>JavaScript values\<close>

text \<open>
  The values that reach \<^verbatim>\<open>backend/server.js\<close> from outside are parsed JSON: the
  request body produced by \<^verbatim>\<open>express.json()\<close> and \<^verbatim>\<open>response.data\<close> of the news API.
  \<open>JUndefined\<close> is what reading a missing property yields. A number is modelled by its
  numeric value; only its truthiness and its comparison with \<open>0\<close> are observed by the
  program. An object is the list of its own properties (keys distinct after parsing).
\<close>

datatype jsval =
    JUndefined
  | JNull
  | JBool bool
  | JNum real
  | JStr string
  | JArr "jsval list"
  | JObj "(string \<times> jsval) list"

text \<open>What \<^verbatim>\<open>!v\<close> negates: \<^verbatim>\<open>undefined\<close>, \<^verbatim>\<open>null\<close>, \<^verbatim>\<open>false\<close>, \<^verbatim>\<open>0\<close> and \<^verbatim>\<open>""\<close> are falsy.\<close>

fun truthy :: "jsval \<Rightarrow> bool" where
  "truthy JUndefined = False"
| "truthy JNull = False"
| "truthy (JBool b) = b"
| "truthy (JNum n) = (n \<noteq> 0)"
| "truthy (JStr s) = (s \<noteq> [])"
| "truthy (JArr xs) = True"
| "truthy (JObj fs) = True"

text \<open>
  An exception: a \<^verbatim>\<open>TypeError\<close> raised by the program's own property reads, calls and
  conversions, the validation error with which the store refuses a record that does not
  fit the schema, or any other rejection of an awaited call to a collaborator, with its
  message.
\<close>

datatype error = TypeError | ValidationError | Rejected string

text \<open>
  Reading property \<open>k\<close> of a value that is neither \<^verbatim>\<open>undefined\<close> nor \<^verbatim>\<open>null\<close>. Arrays and
  strings have a \<^verbatim>\<open>length\<close>; none of the other names the program reads (\<^verbatim>\<open>articles\<close>,
  \<^verbatim>\<open>title\<close>, \<^verbatim>\<open>description\<close>, \<^verbatim>\<open>url\<close>, \<^verbatim>\<open>urlToImage\<close>, \<^verbatim>\<open>publishedAt\<close>, \<^verbatim>\<open>name\<close>, \<^verbatim>\<open>email\<close>,
  \<^verbatim>\<open>message\<close>, \<^verbatim>\<open>imageUrl\<close>) is inherited from a prototype, so every other read of a
  non-object is \<^verbatim>\<open>undefined\<close>.
\<close>

fun property :: "jsval \<Rightarrow> string \<Rightarrow> jsval" where
  "property (JObj fs) k = (case map_of fs k of None \<Rightarrow> JUndefined | Some v \<Rightarrow> v)"
| "property (JArr xs) k = (if k = ''length'' then JNum (real (length xs)) else JUndefined)"
| "property (JStr s) k = (if k = ''length'' then JNum (real (length s)) else JUndefined)"
| "property v k = JUndefined"

text \<open>\<^verbatim>\<open>v.k\<close>: a read from \<^verbatim>\<open>undefined\<close> or \<^verbatim>\<open>null\<close> throws.\<close>

definition get_prop :: "jsval \<Rightarrow> string \<Rightarrow> error + jsval" where
  "get_prop v k = (if v = JUndefined \<or> v = JNull then Inl TypeError else Inr (property v k))"

text \<open>Running a function over a list, stopping at the first exception.\<close>

fun map_err :: "('a \<Rightarrow> error + 'b) \<Rightarrow> 'a list \<Rightarrow> error + 'b list" where
  "map_err f [] = Inr []"
| "map_err f (x # xs) =
     (case f x of
        Inl e \<Rightarrow> Inl e
      | Inr y \<Rightarrow> (case map_err f xs of Inl e \<Rightarrow> Inl e | Inr ys \<Rightarrow> Inr (y # ys)))"

text \<open>
  \<^verbatim>\<open>v.map(f)\<close>: only an array has a callable \<^verbatim>\<open>map\<close>; on any other value that is not
  \<^verbatim>\<open>undefined\<close> or \<^verbatim>\<open>null\<close> the property is absent or not a function and the call throws.
\<close>

fun array_map :: "(jsval \<Rightarrow> error + 'b) \<Rightarrow> jsval \<Rightarrow> error + 'b list" where
  "array_map f (JArr xs) = map_err f xs"
| "array_map f v = Inl TypeError"

text \<open>\<^verbatim>\<open>s.split(" ")\<close>: the pieces of \<open>s\<close> between single spaces; never empty.\<close>

fun split_space :: "string \<Rightarrow> string list" where
  "split_space [] = [[]]"
| "split_space (c # cs) =
     (if c = CHR '' '' then [] # split_space cs
      else (case split_space cs of [] \<Rightarrow> [[c]] | p # ps \<Rightarrow> (c # p) # ps))"

section \<open>Data model\<close>

text \<open>
  A \<^verbatim>\<open>Date\<close> is its time value in milliseconds, or \<open>None\<close> for an invalid date (and for a
  stored record without the field).
\<close>

type_synonym jsdate = "int option"

text \<open>The \<^verbatim>\<open>News\<close> schema (lines 30 to 36). A field that is \<open>JUndefined\<close> is unset.\<close>

record article =
  title :: jsval
  description :: jsval
  url :: jsval
  imageUrl :: jsval
  publishedAt :: jsdate

text \<open>\<^verbatim>\<open>mailOptions\<close> of the contact form (lines 154 to 159).\<close>

record mail_options =
  from_addr :: "string option"
  to_addr :: "string option"
  subject :: string
  text_body :: string

text \<open>The calls the program makes to its collaborators, in the order they are made.\<close>

datatype call =
    AxiosGet string
  | VerifyIdToken string
  | NewsFindSort
  | NewsDeleteMany
  | NewsInsertMany "article list"
  | NewsSave article
  | SendMail mail_options

text \<open>
  Console output: \<^verbatim>\<open>console.log(s)\<close>, \<^verbatim>\<open>console.error(s, error.message)\<close> and
  \<^verbatim>\<open>console.error(s, error)\<close>.
\<close>

datatype log_entry =
    Log string
  | ErrorMessage string error
  | ErrorValue string error

text \<open>
  The state the handlers act on: the documents of the \<^verbatim>\<open>News\<close> collection in insertion
  order, the calls made so far and the console.
\<close>

record world =
  store :: "article list"
  calls :: "call list"
  console :: "log_entry list"

text \<open>
  What a run of a handler gets from outside the file: the process environment, the
  clock, and for every collaborator whether its call resolves or rejects. A store
  operation that rejects leaves the collection as it was. Three conversions of the
  runtime and of the model layer are taken as they are, each with its failure:
  \<^item> \<open>newDate v\<close> is \<^verbatim>\<open>new Date(v)\<close>: \<open>None\<close> when the constructor throws \<^verbatim>\<open>TypeError\<close> (the
    value cannot be converted to a primitive), otherwise the date, valid or invalid;
  \<^item> \<open>toString v\<close> is the string a template literal makes of a value that is not a
    string: \<open>None\<close> when the conversion throws \<^verbatim>\<open>TypeError\<close>;
  \<^item> \<open>castString v\<close> is what a \<^verbatim>\<open>String\<close> path of the schema stores for a value that is
    neither a string, nor \<^verbatim>\<open>null\<close>, nor missing: \<open>None\<close> when the cast fails.
\<close>

record env =
  NEWS_API_KEY :: "string option"
  EMAIL_USER :: "string option"
  now :: int
  newDate :: "jsval \<Rightarrow> jsdate option"
  toString :: "jsval \<Rightarrow> string option"
  castString :: "jsval \<Rightarrow> jsval option"
  axios_get :: "string \<Rightarrow> error + jsval"
  verifyIdToken :: "string \<Rightarrow> error + jsval"
  find_error :: "article list \<Rightarrow> error option"
  deleteMany_error :: "article list \<Rightarrow> error option"
  insertMany_error :: "article list \<Rightarrow> error option"
  save_error :: "article \<Rightarrow> error option"
  sendMail :: "mail_options \<Rightarrow> error option"

text \<open>An HTTP request as the handlers read it, and the response they send.\<close>

record request =
  authorization :: "string option"
  body :: "(string \<times> jsval) list"
  user :: "jsval option"

datatype response_body =
    JsonError string
  | JsonMessage string
  | JsonNews "article list"

record response =
  status :: nat
  json :: response_body

section \<open>Collaborators\<close>

definition log :: "log_entry \<Rightarrow> world \<Rightarrow> world" where
  "log l w = w\<lparr>console := console w @ [l]\<rparr>"

definition called :: "call \<Rightarrow> world \<Rightarrow> world" where
  "called c w = w\<lparr>calls := calls w @ [c]\<rparr>"

text \<open>A string of the process environment inside a template literal.\<close>

definition env_string :: "string option \<Rightarrow> string" where
  "env_string v = (case v of None \<Rightarrow> ''undefined'' | Some s \<Rightarrow> s)"

text \<open>
  A value inside a template literal: a string stands for itself, any other value is
  converted by the runtime, which may throw.
\<close>

definition template :: "env \<Rightarrow> jsval \<Rightarrow> error + string" where
  "template env v =
     (case v of
        JStr s \<Rightarrow> Inr s
      | _ \<Rightarrow> (case toString env v of None \<Rightarrow> Inl TypeError | Some s \<Rightarrow> Inr s))"

definition news_api_url :: "env \<Rightarrow> string" where
  "news_api_url env =
     ''https://newsapi.org/v2/everything?q=orphans&apiKey='' @ env_string (NEWS_API_KEY env)"

text \<open>\<^verbatim>\<open>await axios.get(url)\<close>: the value is \<^verbatim>\<open>response.data\<close>.\<close>

definition axios_get_data :: "env \<Rightarrow> string \<Rightarrow> world \<Rightarrow> (error + jsval) \<times> world" where
  "axios_get_data env u w = (axios_get env u, called (AxiosGet u) w)"

text \<open>
  \<^verbatim>\<open>await News.find().sort({ publishedAt: -1 })\<close>: all documents, greatest \<open>publishedAt\<close>
  first; a document without the field compares below every date.
\<close>

definition sort_publishedAt_desc :: "article list \<Rightarrow> article list" where
  "sort_publishedAt_desc docs = rev (sort_key publishedAt docs)"

definition News_find_sort :: "env \<Rightarrow> world \<Rightarrow> (error + article list) \<times> world" where
  "News_find_sort env w =
     (case find_error env (store w) of
        Some e \<Rightarrow> (Inl e, called NewsFindSort w)
      | None \<Rightarrow> (Inr (sort_publishedAt_desc (store w)), called NewsFindSort w))"

text \<open>
  The schema of lines 30 to 36, applied when a record is built for the store. A \<^verbatim>\<open>String\<close>
  path keeps a string, \<^verbatim>\<open>null\<close> and a missing value as they are and casts every other
  value; a \<^verbatim>\<open>Date\<close> path keeps a valid date and refuses an invalid one. A record with a
  value that cannot be cast fails validation: \<open>None\<close>.
\<close>

definition cast_String :: "env \<Rightarrow> jsval \<Rightarrow> jsval option" where
  "cast_String env v =
     (case v of
        JUndefined \<Rightarrow> Some JUndefined
      | JNull \<Rightarrow> Some JNull
      | JStr s \<Rightarrow> Some (JStr s)
      | _ \<Rightarrow> castString env v)"

definition cast_Date :: "jsdate \<Rightarrow> jsdate option" where
  "cast_Date d = (case d of None \<Rightarrow> None | Some t \<Rightarrow> Some (Some t))"

definition NewsSchema :: "env \<Rightarrow> article \<Rightarrow> article option" where
  "NewsSchema env doc =
     (case cast_String env (title doc) of None \<Rightarrow> None | Some t \<Rightarrow>
     (case cast_String env (description doc) of None \<Rightarrow> None | Some d \<Rightarrow>
     (case cast_String env (url doc) of None \<Rightarrow> None | Some u \<Rightarrow>
     (case cast_String env (imageUrl doc) of None \<Rightarrow> None | Some i \<Rightarrow>
     (case cast_Date (publishedAt doc) of None \<Rightarrow> None | Some p \<Rightarrow>
        Some \<lparr>title = t, description = d, url = u, imageUrl = i, publishedAt = p\<rparr>)))))"

fun NewsSchema_all :: "env \<Rightarrow> article list \<Rightarrow> article list option" where
  "NewsSchema_all env [] = Some []"
| "NewsSchema_all env (doc # docs) =
     (case NewsSchema env doc of
        None \<Rightarrow> None
      | Some s \<Rightarrow> (case NewsSchema_all env docs of None \<Rightarrow> None | Some ss \<Rightarrow> Some (s # ss)))"

text \<open>\<^verbatim>\<open>await News.deleteMany()\<close>: no filter, so every document goes.\<close>

definition News_deleteMany :: "env \<Rightarrow> world \<Rightarrow> (error + unit) \<times> world" where
  "News_deleteMany env w =
     (case deleteMany_error env (store w) of
        Some e \<Rightarrow> (Inl e, called NewsDeleteMany w)
      | None \<Rightarrow> (Inr (), called NewsDeleteMany (w\<lparr>store := []\<rparr>)))"

text \<open>
  \<^verbatim>\<open>await News.insertMany(docs)\<close>: the records are validated against the schema first, and
  nothing is written when one of them fails; what is written is the records as cast.
\<close>

definition News_insertMany :: "env \<Rightarrow> article list \<Rightarrow> world \<Rightarrow> (error + unit) \<times> world" where
  "News_insertMany env docs w =
     (case NewsSchema_all env docs of
        None \<Rightarrow> (Inl ValidationError, called (NewsInsertMany docs) w)
      | Some stored \<Rightarrow>
          (case insertMany_error env stored of
             Some e \<Rightarrow> (Inl e, called (NewsInsertMany docs) w)
           | None \<Rightarrow> (Inr (), called (NewsInsertMany docs) (w\<lparr>store := store w @ stored\<rparr>))))"

text \<open>
  \<^verbatim>\<open>new News(doc)\<close> followed by \<^verbatim>\<open>await newNews.save()\<close>: the constructor casts the values
  and keeps a failed cast for the validation that \<^verbatim>\<open>save\<close> runs before it writes.
\<close>

definition News_save :: "env \<Rightarrow> article \<Rightarrow> world \<Rightarrow> (error + unit) \<times> world" where
  "News_save env doc w =
     (case NewsSchema env doc of
        None \<Rightarrow> (Inl ValidationError, called (NewsSave doc) w)
      | Some stored \<Rightarrow>
          (case save_error env stored of
             Some e \<Rightarrow> (Inl e, called (NewsSave doc) w)
           | None \<Rightarrow> (Inr (), called (NewsSave doc) (w\<lparr>store := store w @ [stored]\<rparr>))))"

text \<open>\<^verbatim>\<open>await transporter.sendMail(mailOptions)\<close>.\<close>

definition transporter_sendMail :: "env \<Rightarrow> mail_options \<Rightarrow> world \<Rightarrow> (error + unit) \<times> world" where
  "transporter_sendMail env m w =
     (case sendMail env m of
        Some e \<Rightarrow> (Inl e, called (SendMail m) w)
      | None \<Rightarrow> (Inr (), called (SendMail m) w))"

text \<open>\<^verbatim>\<open>await admin.auth().verifyIdToken(token)\<close>.\<close>

definition auth_verifyIdToken :: "env \<Rightarrow> string \<Rightarrow> world \<Rightarrow> (error + jsval) \<times> world" where
  "auth_verifyIdToken env t w = (verifyIdToken env t, called (VerifyIdToken t) w)"

section \<open>Middleware and routes\<close>

subsection \<open>\<^verbatim>\<open>verifyToken\<close> (lines 50 to 61)\<close>

datatype gate = Respond response | Next request

text \<open>
  \<^verbatim>\<open>req.headers.authorization?.split(" ")[1]\<close>: the second piece of the header, \<open>None\<close>
  (\<^verbatim>\<open>undefined\<close>) when the header is missing or has no space.
\<close>

definition header_token :: "string option \<Rightarrow> string option" where
  "header_token h =
     (case h of
        None \<Rightarrow> None
      | Some s \<Rightarrow> (case split_space s of a # t # ps \<Rightarrow> Some t | _ \<Rightarrow> None))"

text \<open>\<^verbatim>\<open>!token\<close> holds for \<^verbatim>\<open>undefined\<close> and for the empty string.\<close>

definition verifyToken :: "env \<Rightarrow> request \<Rightarrow> world \<Rightarrow> gate \<times> world" where
  "verifyToken env req w =
     (case header_token (authorization req) of
        None \<Rightarrow> (Respond \<lparr>status = 401, json = JsonError ''Unauthorized''\<rparr>, w)
      | Some token \<Rightarrow>
          if token = [] then (Respond \<lparr>status = 401, json = JsonError ''Unauthorized''\<rparr>, w)
          else
            (case auth_verifyIdToken env token w of
               (Inl e, w1) \<Rightarrow> (Respond \<lparr>status = 403, json = JsonError ''Invalid token''\<rparr>, w1)
             | (Inr decodedToken, w1) \<Rightarrow> (Next (req\<lparr>user := Some decodedToken\<rparr>), w1)))"

subsection \<open>\<^verbatim>\<open>GET /api/news\<close> (lines 64 to 71)\<close>

definition get_news :: "env \<Rightarrow> world \<Rightarrow> response \<times> world" where
  "get_news env w =
     (case News_find_sort env w of
        (Inl e, w1) \<Rightarrow> (\<lparr>status = 500, json = JsonError ''Failed to fetch news''\<rparr>, w1)
      | (Inr news, w1) \<Rightarrow> (\<lparr>status = 200, json = JsonNews news\<rparr>, w1))"

subsection \<open>The sync routine, twice (lines 74 to 101 and 104 to 131)\<close>

text \<open>The arrow function given to \<^verbatim>\<open>map\<close> (lines 85 to 91 and 116 to 122).\<close>

definition mapArticle :: "env \<Rightarrow> jsval \<Rightarrow> error + article" where
  "mapArticle env a =
     (case get_prop a ''title'' of Inl e \<Rightarrow> Inl e | Inr t \<Rightarrow>
     (case get_prop a ''description'' of Inl e \<Rightarrow> Inl e | Inr d \<Rightarrow>
     (case get_prop a ''url'' of Inl e \<Rightarrow> Inl e | Inr u \<Rightarrow>
     (case get_prop a ''urlToImage'' of Inl e \<Rightarrow> Inl e | Inr i \<Rightarrow>
     (case get_prop a ''publishedAt'' of Inl e \<Rightarrow> Inl e | Inr p \<Rightarrow>
     (case newDate env p of None \<Rightarrow> Inl TypeError | Some date \<Rightarrow>
        Inr \<lparr>title = t, description = d, url = u, imageUrl = i,
             publishedAt = date\<rparr>))))))"

text \<open>
  \<^verbatim>\<open>!articles || articles.length === 0\<close>, for \<open>articles\<close> already read: the second
  operand is only evaluated on a truthy value, where the read of \<^verbatim>\<open>length\<close> cannot throw.
\<close>

definition no_articles :: "jsval \<Rightarrow> bool" where
  "no_articles articles \<longleftrightarrow> \<not> truthy articles \<or> property articles ''length'' = JNum 0"

text \<open>The \<^verbatim>\<open>catch\<close> block of the manual trigger (lines 97 to 100).\<close>

definition fetch_news_catch :: "error \<Rightarrow> world \<Rightarrow> response \<times> world" where
  "fetch_news_catch e w =
     (\<lparr>status = 500, json = JsonError ''Failed to fetch news''\<rparr>,
      log (ErrorMessage ''Error fetching news:'' e) w)"

definition fetch_news :: "env \<Rightarrow> world \<Rightarrow> response \<times> world" where
  "fetch_news env w0 =
     (let w1 = log (Log ''Fetching latest news...'') w0 in
      case axios_get_data env (news_api_url env) w1 of
        (Inl e, w2) \<Rightarrow> fetch_news_catch e w2
      | (Inr data, w2) \<Rightarrow>
          (case get_prop data ''articles'' of
             Inl e \<Rightarrow> fetch_news_catch e w2
           | Inr articles \<Rightarrow>
               if no_articles articles
               then (\<lparr>status = 404, json = JsonMessage ''No news found''\<rparr>, w2)
               else
                 (case array_map (mapArticle env) articles of
                    Inl e \<Rightarrow> fetch_news_catch e w2
                  | Inr latestNews \<Rightarrow>
                      (case News_deleteMany env w2 of
                         (Inl e, w3) \<Rightarrow> fetch_news_catch e w3
                       | (Inr u, w3) \<Rightarrow>
                           (case News_insertMany env latestNews w3 of
                              (Inl e, w4) \<Rightarrow> fetch_news_catch e w4
                            | (Inr u', w4) \<Rightarrow>
                                (\<lparr>status = 200,
                                  json = JsonMessage ''News fetched and saved successfully!''\<rparr>,
                                 w4))))))"

text \<open>The \<^verbatim>\<open>catch\<close> block of the scheduled trigger (lines 128 to 130).\<close>

definition scheduled_catch :: "error \<Rightarrow> world \<Rightarrow> world" where
  "scheduled_catch e w = log (ErrorMessage ''Error fetching news:'' e) w"

definition scheduled_update :: "env \<Rightarrow> world \<Rightarrow> world" where
  "scheduled_update env w0 =
     (let w1 = log (Log ''Running scheduled news update...'') w0 in
      case axios_get_data env (news_api_url env) w1 of
        (Inl e, w2) \<Rightarrow> scheduled_catch e w2
      | (Inr data, w2) \<Rightarrow>
          (case get_prop data ''articles'' of
             Inl e \<Rightarrow> scheduled_catch e w2
           | Inr articles \<Rightarrow>
               if no_articles articles
               then log (Log ''No new articles found.'') w2
               else
                 (case array_map (mapArticle env) articles of
                    Inl e \<Rightarrow> scheduled_catch e w2
                  | Inr latestNews \<Rightarrow>
                      (case News_deleteMany env w2 of
                         (Inl e, w3) \<Rightarrow> scheduled_catch e w3
                       | (Inr u, w3) \<Rightarrow>
                           (case News_insertMany env latestNews w3 of
                              (Inl e, w4) \<Rightarrow> scheduled_catch e w4
                            | (Inr u', w4) \<Rightarrow> log (Log ''News updated successfully!'') w4)))))"

subsection \<open>\<^verbatim>\<open>POST /api/news\<close> (lines 134 to 144)\<close>

text \<open>
  \<^verbatim>\<open>req.body\<close> is the object the JSON body parser left there; destructuring reads its
  properties, \<^verbatim>\<open>undefined\<close> for a missing one.
\<close>

definition body_field :: "request \<Rightarrow> string \<Rightarrow> jsval" where
  "body_field req k = property (JObj (body req)) k"

definition newNews :: "env \<Rightarrow> request \<Rightarrow> article" where
  "newNews env req =
     \<lparr>title = body_field req ''title'', description = body_field req ''description'',
      url = body_field req ''url'', imageUrl = body_field req ''imageUrl'',
      publishedAt = Some (now env)\<rparr>"

definition post_news_handler :: "env \<Rightarrow> request \<Rightarrow> world \<Rightarrow> response \<times> world" where
  "post_news_handler env req w =
     (case News_save env (newNews env req) w of
        (Inl e, w1) \<Rightarrow> (\<lparr>status = 500, json = JsonError ''Failed to add news''\<rparr>, w1)
      | (Inr u, w1) \<Rightarrow> (\<lparr>status = 201, json = JsonMessage ''News added successfully!''\<rparr>, w1))"

text \<open>The route: \<^verbatim>\<open>verifyToken\<close> first, the handler only through \<^verbatim>\<open>next()\<close>.\<close>

definition post_news :: "env \<Rightarrow> request \<Rightarrow> world \<Rightarrow> response \<times> world" where
  "post_news env req w =
     (case verifyToken env req w of
        (Respond r, w1) \<Rightarrow> (r, w1)
      | (Next req1, w1) \<Rightarrow> post_news_handler env req1 w1)"

subsection \<open>\<^verbatim>\<open>POST /send-message\<close> (lines 147 to 168)\<close>

text \<open>
  \<^verbatim>\<open>mailOptions\<close> (lines 154 to 159): the two template literals convert \<open>name\<close>, then
  \<open>name\<close>, \<open>email\<close> and \<open>message\<close>; the first conversion that throws ends the evaluation.
\<close>

definition mailOptions :: "env \<Rightarrow> jsval \<Rightarrow> jsval \<Rightarrow> jsval \<Rightarrow> error + mail_options" where
  "mailOptions env name email message =
     (case template env name of Inl e \<Rightarrow> Inl e | Inr n1 \<Rightarrow>
     (case template env name of Inl e \<Rightarrow> Inl e | Inr n2 \<Rightarrow>
     (case template env email of Inl e \<Rightarrow> Inl e | Inr em \<Rightarrow>
     (case template env message of Inl e \<Rightarrow> Inl e | Inr ms \<Rightarrow>
        Inr \<lparr>from_addr = EMAIL_USER env,
             to_addr = EMAIL_USER env,
             subject = ''New Volunteer Message from '' @ n1,
             text_body = ''Name: '' @ n2 @ [CHR 0x0A] @ ''Email: '' @ em
               @ [CHR 0x0A, CHR 0x0A] @ ''Message:'' @ [CHR 0x0A] @ ms\<rparr>))))"

text \<open>
  The handler. Its validation and the construction of \<^verbatim>\<open>mailOptions\<close> stand before the
  \<^verbatim>\<open>try\<close> block: an exception there leaves the handler without a response having been
  sent (\<open>Inl\<close>); the \<^verbatim>\<open>try\<close> block covers the call to the relay only.
\<close>

definition send_message :: "env \<Rightarrow> request \<Rightarrow> world \<Rightarrow> (error + response) \<times> world" where
  "send_message env req w =
     (let name = body_field req ''name'';
          email = body_field req ''email'';
          message = body_field req ''message''
      in if \<not> truthy name \<or> \<not> truthy email \<or> \<not> truthy message
         then (Inr \<lparr>status = 400, json = JsonError ''All fields are required.''\<rparr>, w)
         else
           (case mailOptions env name email message of
              Inl e \<Rightarrow> (Inl e, w)
            | Inr options \<Rightarrow>
                (case transporter_sendMail env options w of
                   (Inl e, w1) \<Rightarrow>
                     (Inr \<lparr>status = 500, json = JsonError ''Failed to send message.''\<rparr>,
                      log (ErrorValue ''Error sending email:'' e) w1)
                 | (Inr u, w1) \<Rightarrow>
                     (Inr \<lparr>status = 200, json = JsonMessage ''Message sent successfully!''\<rparr>,
                      w1))))"

section \<open>Vocabulary of the properties\<close>

text \<open>
  An entry of the upstream list on which the arrow function of lines 85 to 91 throws: it
  is \<^verbatim>\<open>undefined\<close> or \<^verbatim>\<open>null\<close>, or its \<^verbatim>\<open>publishedAt\<close> cannot be converted by the date
  constructor.
\<close>

definition entry_throws :: "env \<Rightarrow> jsval \<Rightarrow> bool" where
  "entry_throws env a \<longleftrightarrow>
     a = JUndefined \<or> a = JNull \<or> newDate env (property a ''publishedAt'') = None"

text \<open>
  Values on which \<^verbatim>\<open>.map(...)\<close> with that arrow function throws: anything that is not an
  array, and an array with an entry on which the function throws.
\<close>

fun map_throws :: "env \<Rightarrow> jsval \<Rightarrow> bool" where
  "map_throws env (JArr xs) = list_ex (entry_throws env) xs"
| "map_throws env v = True"

text \<open>
  A response body the sync routine cannot process: there is no data at all, or the
  articles value passes the guard of line 81 and the mapping throws on it.
\<close>

definition malformed :: "env \<Rightarrow> jsval \<Rightarrow> bool" where
  "malformed env data \<longleftrightarrow>
     data = JUndefined \<or> data = JNull \<or>
     (\<not> no_articles (property data ''articles'') \<and> map_throws env (property data ''articles''))"

text \<open>
  A failed run, seen from outside: the run threw \<open>e\<close> after making exactly the calls \<open>cs\<close>
  and left the documents \<open>docs\<close> in the store. The manual trigger answers 500 with the
  generic message and logs the error; the scheduled trigger logs the error and returns.
\<close>

definition run_failed :: "env \<Rightarrow> world \<Rightarrow> error \<Rightarrow> call list \<Rightarrow> article list \<Rightarrow> bool" where
  "run_failed env w e cs docs \<longleftrightarrow>
     fetch_news env w =
       (\<lparr>status = 500, json = JsonError ''Failed to fetch news''\<rparr>,
        \<lparr>store = docs, calls = calls w @ cs,
         console = console w @
           [Log ''Fetching latest news...'', ErrorMessage ''Error fetching news:'' e]\<rparr>) \<and>
     scheduled_update env w =
       \<lparr>store = docs, calls = calls w @ cs,
        console = console w @
          [Log ''Running scheduled news update...'', ErrorMessage ''Error fetching news:'' e]\<rparr>"

text \<open>A value a \<^verbatim>\<open>String\<close> path stores unchanged: a string, \<^verbatim>\<open>null\<close>, or nothing.\<close>

fun text_or_absent :: "jsval \<Rightarrow> bool" where
  "text_or_absent JUndefined = True"
| "text_or_absent JNull = True"
| "text_or_absent (JStr s) = True"
| "text_or_absent v = False"

text \<open>
  \<open>s\<close> is what a \<^verbatim>\<open>String\<close> path of the schema stores for the value \<open>v\<close>: the cast of \<open>v\<close>,
  which is \<open>v\<close> itself when \<open>v\<close> is a string, \<^verbatim>\<open>null\<close> or missing.
\<close>

definition stored_as :: "env \<Rightarrow> jsval \<Rightarrow> jsval \<Rightarrow> bool" where
  "stored_as env v s \<longleftrightarrow> cast_String env v = Some s \<and> (text_or_absent v \<longrightarrow> s = v)"

section \<open>Sample inputs\<close>

text \<open>
  Concrete collaborators, requests and store contents on which the properties below are
  evaluated. \<open>sample_env\<close> is a run in which every collaborator answers; each variant
  changes one answer.
\<close>

definition sample_article_1 :: jsval where
  "sample_article_1 =
     JObj [(''title'', JStr ''Shelter opens''), (''description'', JStr ''A new shelter''),
           (''url'', JStr ''https://example.org/1''),
           (''urlToImage'', JStr ''https://example.org/1.png''),
           (''publishedAt'', JStr ''2024-01-01T00:00:00Z'')]"

definition sample_article_2 :: jsval where
  "sample_article_2 =
     JObj [(''title'', JStr ''Fundraiser''), (''description'', JNull),
           (''url'', JStr ''https://example.org/2''),
           (''publishedAt'', JStr ''2024-01-02T00:00:00Z'')]"

text \<open>The two records the sync routine makes of the two sample articles.\<close>

definition sample_record_1 :: article where
  "sample_record_1 =
     \<lparr>title = JStr ''Shelter opens'', description = JStr ''A new shelter'',
      url = JStr ''https://example.org/1'', imageUrl = JStr ''https://example.org/1.png'',
      publishedAt = Some 1704067200000\<rparr>"

definition sample_record_2 :: article where
  "sample_record_2 =
     \<lparr>title = JStr ''Fundraiser'', description = JNull,
      url = JStr ''https://example.org/2'', imageUrl = JUndefined,
      publishedAt = Some 1704153600000\<rparr>"

definition sample_data :: jsval where
  "sample_data =
     JObj [(''status'', JStr ''ok''), (''totalResults'', JNum 2),
           (''articles'', JArr [sample_article_1, sample_article_2])]"

text \<open>
  The runtime and the model layer on the values used below: two timestamps, the number
  5, booleans, \<^verbatim>\<open>null\<close> and objects; on any other value the samples give a fixed answer.
  An object that carries a property \<^verbatim>\<open>toString\<close> of its own (never a function in parsed
  JSON) cannot be converted: the date constructor and the template literal throw on it.
  The cast to \<^verbatim>\<open>String\<close> fails on every object and array.
\<close>

definition sample_newDate :: "jsval \<Rightarrow> jsdate option" where
  "sample_newDate v =
     (if v = JStr ''2024-01-01T00:00:00Z'' then Some (Some 1704067200000)
      else if v = JStr ''2024-01-02T00:00:00Z'' then Some (Some 1704153600000)
      else (case v of
              JObj fs \<Rightarrow> (if map_of fs ''toString'' = None then Some None else None)
            | _ \<Rightarrow> Some None))"

definition sample_toString :: "jsval \<Rightarrow> string option" where
  "sample_toString v =
     (case v of
        JObj fs \<Rightarrow> (if map_of fs ''toString'' = None then Some ''[object Object]'' else None)
      | JBool b \<Rightarrow> Some (if b then ''true'' else ''false'')
      | JNull \<Rightarrow> Some ''null''
      | JNum n \<Rightarrow> Some (if n = 5 then ''5'' else ''0'')
      | _ \<Rightarrow> Some ''undefined'')"

definition sample_castString :: "jsval \<Rightarrow> jsval option" where
  "sample_castString v =
     (case v of
        JNum n \<Rightarrow> Some (JStr (if n = 5 then ''5'' else ''0''))
      | JBool b \<Rightarrow> Some (JStr (if b then ''true'' else ''false''))
      | _ \<Rightarrow> None)"

definition sample_env :: env where
  "sample_env =
     \<lparr>NEWS_API_KEY = Some ''k'', EMAIL_USER = Some ''team@example.org'',
      now = 1704240000000, newDate = sample_newDate,
      toString = sample_toString, castString = sample_castString,
      axios_get = (\<lambda>u. Inr sample_data),
      verifyIdToken = (\<lambda>t. if t = ''good'' then Inr (JObj [(''uid'', JStr ''u1'')])
                            else Inl (Rejected ''invalid token'')),
      find_error = (\<lambda>docs. None), deleteMany_error = (\<lambda>docs. None),
      insertMany_error = (\<lambda>docs. None), save_error = (\<lambda>doc. None),
      sendMail = (\<lambda>m. None)\<rparr>"

definition env_offline :: env where
  "env_offline = sample_env\<lparr>axios_get := (\<lambda>u. Inl (Rejected ''ECONNREFUSED''))\<rparr>"

definition env_no_list :: env where
  "env_no_list = sample_env\<lparr>axios_get := (\<lambda>u. Inr (JObj [(''status'', JStr ''error'')]))\<rparr>"

definition env_empty_list :: env where
  "env_empty_list =
     sample_env\<lparr>axios_get := (\<lambda>u. Inr (JObj [(''status'', JStr ''ok''), (''articles'', JArr [])]))\<rparr>"

definition env_null_entry :: env where
  "env_null_entry =
     sample_env\<lparr>axios_get := (\<lambda>u. Inr (JObj [(''articles'', JArr [JNull])]))\<rparr>"

definition env_bad_timestamp :: env where
  "env_bad_timestamp =
     sample_env\<lparr>axios_get := (\<lambda>u. Inr (JObj [(''articles'',
       JArr [JObj [(''title'', JStr ''Shelter opens''),
                   (''publishedAt'', JObj [(''toString'', JStr ''x'')])]])]))\<rparr>"

definition env_untyped_title :: env where
  "env_untyped_title =
     sample_env\<lparr>axios_get := (\<lambda>u. Inr (JObj [(''articles'',
       JArr [JObj [(''title'', JObj [(''a'', JStr ''b'')]),
                   (''publishedAt'', JStr ''2024-01-01T00:00:00Z'')]])]))\<rparr>"

definition env_delete_fails :: env where
  "env_delete_fails = sample_env\<lparr>deleteMany_error := (\<lambda>docs. Some (Rejected ''store down''))\<rparr>"

definition env_insert_fails :: env where
  "env_insert_fails = sample_env\<lparr>insertMany_error := (\<lambda>docs. Some (Rejected ''store down''))\<rparr>"

definition env_find_fails :: env where
  "env_find_fails = sample_env\<lparr>find_error := (\<lambda>docs. Some (Rejected ''store down''))\<rparr>"

definition env_save_fails :: env where
  "env_save_fails = sample_env\<lparr>save_error := (\<lambda>doc. Some (Rejected ''store down''))\<rparr>"

definition env_mail_fails :: env where
  "env_mail_fails = sample_env\<lparr>sendMail := (\<lambda>m. Some (Rejected ''relay down''))\<rparr>"

definition old_article :: article where
  "old_article =
     \<lparr>title = JStr ''Old'', description = JStr ''from the last run'', url = JUndefined,
      imageUrl = JUndefined, publishedAt = Some 1700000000000\<rparr>"

definition sample_world :: world where
  "sample_world = \<lparr>store = [old_article], calls = [], console = []\<rparr>"

definition unordered_world :: world where
  "unordered_world =
     \<lparr>store =
        [\<lparr>title = JStr ''first'', description = JUndefined, url = JUndefined,
          imageUrl = JUndefined, publishedAt = Some 1704067200000\<rparr>,
         \<lparr>title = JStr ''undated'', description = JUndefined, url = JUndefined,
          imageUrl = JUndefined, publishedAt = None\<rparr>,
         \<lparr>title = JStr ''second'', description = JUndefined, url = JUndefined,
          imageUrl = JUndefined, publishedAt = Some 1704153600000\<rparr>],
      calls = [], console = []\<rparr>"

definition full_body :: "(string \<times> jsval) list" where
  "full_body =
     [(''title'', JStr ''Winter drive''), (''description'', JStr ''Coats wanted''),
      (''url'', JStr ''https://example.org/d''), (''imageUrl'', JStr ''https://example.org/d.png'')]"

definition req_no_header :: request where
  "req_no_header = \<lparr>authorization = None, body = full_body, user = None\<rparr>"

definition req_scheme_only :: request where
  "req_scheme_only = \<lparr>authorization = Some ''Bearer'', body = full_body, user = None\<rparr>"

definition req_forged :: request where
  "req_forged = \<lparr>authorization = Some ''Bearer forged'', body = full_body, user = None\<rparr>"

definition req_good :: request where
  "req_good = \<lparr>authorization = Some ''Bearer good'', body = full_body, user = None\<rparr>"

definition req_object_title :: request where
  "req_object_title =
     \<lparr>authorization = Some ''Bearer good'',
      body = [(''title'', JObj [(''a'', JStr ''b'')]), (''description'', JStr ''Coats wanted'')],
      user = None\<rparr>"

definition req_numeric_title :: request where
  "req_numeric_title =
     \<lparr>authorization = Some ''Bearer good'', body = [(''title'', JNum 5)], user = None\<rparr>"

definition req_title_only :: request where
  "req_title_only =
     \<lparr>authorization = Some ''Bearer good'', body = [(''title'', JStr ''Only a title'')],
      user = None\<rparr>"

definition msg_full :: request where
  "msg_full =
     \<lparr>authorization = None,
      body = [(''name'', JStr ''Ada''), (''email'', JStr ''ada@example.org''),
              (''message'', JStr ''I can help'')],
      user = None\<rparr>"

definition msg_blank_email :: request where
  "msg_blank_email =
     \<lparr>authorization = None,
      body = [(''name'', JStr ''Ada''), (''email'', JStr ''''), (''message'', JStr ''I can help'')],
      user = None\<rparr>"

definition msg_no_message :: request where
  "msg_no_message =
     \<lparr>authorization = None,
      body = [(''name'', JStr ''Ada''), (''email'', JStr ''ada@example.org'')],
      user = None\<rparr>"

definition msg_odd_name :: request where
  "msg_odd_name =
     \<lparr>authorization = None,
      body = [(''name'', JObj [(''toString'', JStr ''x'')]), (''email'', JStr ''ada@example.org''),
              (''message'', JStr ''I can help'')],
      user = None\<rparr>"

section \<open>Auxiliary facts\<close>

lemmas sample_defs =
  sample_article_1_def sample_article_2_def sample_data_def sample_newDate_def
  sample_toString_def sample_castString_def sample_env_def
  sample_record_1_def sample_record_2_def env_offline_def env_no_list_def
  env_empty_list_def env_null_entry_def env_bad_timestamp_def env_untyped_title_def
  env_delete_fails_def env_insert_fails_def env_find_fails_def env_save_fails_def
  env_mail_fails_def old_article_def sample_world_def

lemma mapArticle_eq:
  "mapArticle env a =
     (if a = JUndefined \<or> a = JNull then Inl TypeError
      else (case newDate env (property a ''publishedAt'') of
              None \<Rightarrow> Inl TypeError
            | Some date \<Rightarrow>
                Inr \<lparr>title = property a ''title'', description = property a ''description'',
                     url = property a ''url'', imageUrl = property a ''urlToImage'',
                     publishedAt = date\<rparr>))"
  by (simp add: mapArticle_def get_prop_def)

lemma mapArticle_throws: "entry_throws env a \<Longrightarrow> mapArticle env a = Inl TypeError"
  by (auto simp: mapArticle_eq entry_throws_def)

lemma mapArticle_Inr:
  assumes "mapArticle env a = Inr d"
  shows "a \<noteq> JUndefined \<and> a \<noteq> JNull \<and>
         title d = property a ''title'' \<and> description d = property a ''description'' \<and>
         url d = property a ''url'' \<and> imageUrl d = property a ''urlToImage'' \<and>
         newDate env (property a ''publishedAt'') = Some (publishedAt d)"
  using assms by (auto simp: mapArticle_eq split: if_splits option.splits)

lemma mapArticle_Inl: "mapArticle env a = Inl e \<Longrightarrow> e = TypeError"
  by (auto simp: mapArticle_eq split: if_splits option.splits)

lemma map_err_throws:
  "list_ex (entry_throws env) xs \<Longrightarrow> map_err (mapArticle env) xs = Inl TypeError"
proof (induction xs)
  case Nil
  then show ?case by simp
next
  case (Cons a xs)
  show ?case
  proof (cases "entry_throws env a")
    case True
    then show ?thesis by (simp add: mapArticle_throws)
  next
    case False
    with Cons have "map_err (mapArticle env) xs = Inl TypeError" by simp
    then show ?thesis by (auto split: sum.splits dest: mapArticle_Inl)
  qed
qed

lemma map_err_mapArticle_total:
  "\<not> list_ex (entry_throws env) xs \<Longrightarrow> \<exists>docs. map_err (mapArticle env) xs = Inr docs"
proof (induction xs)
  case Nil
  then show ?case by simp
next
  case (Cons a xs)
  then obtain docs where "map_err (mapArticle env) xs = Inr docs"
    by auto
  moreover from Cons.prems obtain d where "mapArticle env a = Inr d"
    by (auto simp: mapArticle_eq entry_throws_def split: option.splits)
  ultimately show ?case by simp
qed

lemma array_map_throws:
  "map_throws env v \<Longrightarrow> array_map (mapArticle env) v = Inl TypeError"
  by (cases v) (simp_all add: map_err_throws)

lemma map_err_Inr:
  "map_err f xs = Inr ys \<Longrightarrow> list_all2 (\<lambda>x y. f x = Inr y) xs ys"
  by (induction xs arbitrary: ys) (auto split: sum.splits)

lemma NewsSchema_all_Some:
  "NewsSchema_all env docs = Some stored \<Longrightarrow> list_all2 (\<lambda>d s. NewsSchema env d = Some s) docs stored"
  by (induction docs arbitrary: stored) (auto split: option.splits)

lemma NewsSchema_Some:
  assumes "NewsSchema env d = Some s"
  shows "cast_String env (title d) = Some (title s) \<and>
         cast_String env (description d) = Some (description s) \<and>
         cast_String env (url d) = Some (url s) \<and>
         cast_String env (imageUrl d) = Some (imageUrl s) \<and>
         publishedAt s = publishedAt d \<and> publishedAt s \<noteq> None"
  using assms
  by (cases "publishedAt d") (auto simp: NewsSchema_def cast_Date_def split: option.splits)

lemma cast_String_text: "text_or_absent v \<Longrightarrow> cast_String env v = Some v"
  by (cases v) (simp_all add: cast_String_def)

lemma stored_as_cast: "cast_String env v = Some s \<Longrightarrow> stored_as env v s"
  by (auto simp: stored_as_def cast_String_text)

lemma NewsSchema_text:
  "text_or_absent (title d) \<Longrightarrow> text_or_absent (description d) \<Longrightarrow> text_or_absent (url d) \<Longrightarrow>
   text_or_absent (imageUrl d) \<Longrightarrow> publishedAt d = Some t \<Longrightarrow> NewsSchema env d = Some d"
  by (simp add: NewsSchema_def cast_String_text cast_Date_def)

lemma no_articles_nonempty_array: "xs \<noteq> [] \<Longrightarrow> \<not> no_articles (JArr xs)"
  by (simp add: no_articles_def)

lemma no_articles_empty_array: "no_articles (JArr [])"
  by (simp add: no_articles_def)

lemma property_array_not_nullish:
  "property data k = JArr xs \<Longrightarrow> data \<noteq> JUndefined \<and> data \<noteq> JNull"
  by (cases data) auto

lemmas sync_defs =
  fetch_news_def scheduled_update_def fetch_news_catch_def scheduled_catch_def
  axios_get_data_def News_deleteMany_def News_insertMany_def called_def log_def get_prop_def

lemma run_network_error:
  "axios_get env (news_api_url env) = Inl e \<Longrightarrow>
   run_failed env w e [AxiosGet (news_api_url env)] (store w)"
  by (simp add: run_failed_def sync_defs)

lemma run_malformed:
  "axios_get env (news_api_url env) = Inr data \<Longrightarrow> malformed env data \<Longrightarrow>
   run_failed env w TypeError [AxiosGet (news_api_url env)] (store w)"
  by (auto simp add: run_failed_def sync_defs malformed_def array_map_throws)

lemma run_delete_failed:
  "axios_get env (news_api_url env) = Inr data \<Longrightarrow>
   property data ''articles'' = JArr arts \<Longrightarrow> arts \<noteq> [] \<Longrightarrow>
   map_err (mapArticle env) arts = Inr latestNews \<Longrightarrow>
   deleteMany_error env (store w) = Some e \<Longrightarrow>
   run_failed env w e [AxiosGet (news_api_url env), NewsDeleteMany] (store w)"
  using property_array_not_nullish[of data "''articles''" arts]
  by (simp add: run_failed_def sync_defs no_articles_nonempty_array)

lemma run_insert_invalid:
  "axios_get env (news_api_url env) = Inr data \<Longrightarrow>
   property data ''articles'' = JArr arts \<Longrightarrow> arts \<noteq> [] \<Longrightarrow>
   map_err (mapArticle env) arts = Inr latestNews \<Longrightarrow>
   deleteMany_error env (store w) = None \<Longrightarrow>
   NewsSchema_all env latestNews = None \<Longrightarrow>
   run_failed env w ValidationError
     [AxiosGet (news_api_url env), NewsDeleteMany, NewsInsertMany latestNews] []"
  using property_array_not_nullish[of data "''articles''" arts]
  by (simp add: run_failed_def sync_defs no_articles_nonempty_array)

lemma run_insert_failed:
  "axios_get env (news_api_url env) = Inr data \<Longrightarrow>
   property data ''articles'' = JArr arts \<Longrightarrow> arts \<noteq> [] \<Longrightarrow>
   map_err (mapArticle env) arts = Inr latestNews \<Longrightarrow>
   deleteMany_error env (store w) = None \<Longrightarrow>
   NewsSchema_all env latestNews = Some stored \<Longrightarrow>
   insertMany_error env stored = Some e \<Longrightarrow>
   run_failed env w e
     [AxiosGet (news_api_url env), NewsDeleteMany, NewsInsertMany latestNews] []"
  using property_array_not_nullish[of data "''articles''" arts]
  by (simp add: run_failed_def sync_defs no_articles_nonempty_array)

lemma run_succeeded:
  assumes "axios_get env (news_api_url env) = Inr data"
    and "property data ''articles'' = JArr arts"
    and "arts \<noteq> []"
    and "map_err (mapArticle env) arts = Inr latestNews"
    and "deleteMany_error env (store w) = None"
    and "NewsSchema_all env latestNews = Some stored"
    and "insertMany_error env stored = None"
  shows "fetch_news env w =
      (\<lparr>status = 200, json = JsonMessage ''News fetched and saved successfully!''\<rparr>,
       \<lparr>store = stored,
        calls = calls w @ [AxiosGet (news_api_url env), NewsDeleteMany, NewsInsertMany latestNews],
        console = console w @ [Log ''Fetching latest news...'']\<rparr>)"
    and "scheduled_update env w =
       \<lparr>store = stored,
        calls = calls w @ [AxiosGet (news_api_url env), NewsDeleteMany, NewsInsertMany latestNews],
        console = console w @
          [Log ''Running scheduled news update...'', Log ''News updated successfully!'']\<rparr>"
  using assms property_array_not_nullish[of data "''articles''" arts]
  by (simp_all add: sync_defs no_articles_nonempty_array)

lemma sorted_desc_sort_publishedAt:
  "sorted_wrt (\<lambda>a b. publishedAt b \<le> publishedAt a) (sort_publishedAt_desc docs)"
proof -
  have "sorted (map publishedAt (sort_key publishedAt docs))"
    by (rule sorted_sort_key)
  then have "sorted_wrt (\<lambda>a b. publishedAt a \<le> publishedAt b) (sort_key publishedAt docs)"
    by (simp add: sorted_map)
  then show ?thesis
    by (simp add: sort_publishedAt_desc_def sorted_wrt_rev)
qed

lemma mset_sort_publishedAt: "mset (sort_publishedAt_desc docs) = mset docs"
  by (simp add: sort_publishedAt_desc_def)

lemma dates_of_sort_publishedAt:
  "map publishedAt (sort_publishedAt_desc docs) = rev (sort (map publishedAt docs))"
proof -
  have "sort (map publishedAt docs) = map publishedAt (sort_key publishedAt docs)"
    by (rule properties_for_sort) simp_all
  then show ?thesis
    by (simp add: sort_publishedAt_desc_def rev_map)
qed

lemma dates_of_sort_permutation:
  assumes "mset docs' = mset docs"
  shows "map publishedAt (sort_publishedAt_desc docs') = map publishedAt (sort_publishedAt_desc docs)"
proof -
  have "mset (map publishedAt docs') = mset (map publishedAt docs)"
    using assms by (metis mset_map)
  then have "sort (map publishedAt docs') = sort (map publishedAt docs)"
    by (metis sorted_list_of_multiset_mset)
  then show ?thesis
    by (simp add: dates_of_sort_publishedAt)
qed

lemma verifyToken_missing:
  "header_token (authorization req) = None \<or> header_token (authorization req) = Some [] \<Longrightarrow>
   verifyToken env req w = (Respond \<lparr>status = 401, json = JsonError ''Unauthorized''\<rparr>, w)"
  by (auto simp: verifyToken_def)

lemma verifyToken_invalid:
  "header_token (authorization req) = Some t \<Longrightarrow> t \<noteq> [] \<Longrightarrow> verifyIdToken env t = Inl e \<Longrightarrow>
   verifyToken env req w =
     (Respond \<lparr>status = 403, json = JsonError ''Invalid token''\<rparr>,
      w\<lparr>calls := calls w @ [VerifyIdToken t]\<rparr>)"
  by (simp add: verifyToken_def auth_verifyIdToken_def called_def)

lemma verifyToken_valid:
  "header_token (authorization req) = Some t \<Longrightarrow> t \<noteq> [] \<Longrightarrow> verifyIdToken env t = Inr d \<Longrightarrow>
   verifyToken env req w =
     (Next (req\<lparr>user := Some d\<rparr>), w\<lparr>calls := calls w @ [VerifyIdToken t]\<rparr>)"
  by (simp add: verifyToken_def auth_verifyIdToken_def called_def)

lemma newNews_user: "newNews env (req\<lparr>user := x\<rparr>) = newNews env req"
  by (simp add: newNews_def body_field_def)

lemma post_news_valid:
  "header_token (authorization req) = Some t \<Longrightarrow> t \<noteq> [] \<Longrightarrow> verifyIdToken env t = Inr d \<Longrightarrow>
   post_news env req w =
     (case NewsSchema env (newNews env req) of
        None \<Rightarrow>
          (\<lparr>status = 500, json = JsonError ''Failed to add news''\<rparr>,
           w\<lparr>calls := calls w @ [VerifyIdToken t, NewsSave (newNews env req)]\<rparr>)
      | Some stored \<Rightarrow>
          (case save_error env stored of
             None \<Rightarrow>
               (\<lparr>status = 201, json = JsonMessage ''News added successfully!''\<rparr>,
                w\<lparr>store := store w @ [stored],
                  calls := calls w @ [VerifyIdToken t, NewsSave (newNews env req)]\<rparr>)
           | Some e \<Rightarrow>
               (\<lparr>status = 500, json = JsonError ''Failed to add news''\<rparr>,
                w\<lparr>calls := calls w @ [VerifyIdToken t, NewsSave (newNews env req)]\<rparr>)))"
  by (simp add: post_news_def verifyToken_valid post_news_handler_def News_save_def called_def
      newNews_user split: option.splits)

lemma body_field_lookup:
  "body_field req k = (case map_of (body req) k of None \<Rightarrow> JUndefined | Some v \<Rightarrow> v)"
  by (simp add: body_field_def)

section \<open>The claims\<close>

text \<open>
  Claim C4. The manual trigger and the scheduled trigger differ only in how they report:
  for the same behaviour of the collaborators and the same store they make the same calls
  (the same fetch, then the same delete and the same insert of the same normalized
  articles) and leave the same store.
\<close>

theorem triggers_agree:
  "store (snd (fetch_news env w)) = store (scheduled_update env w) \<and>
   calls (snd (fetch_news env w)) = calls (scheduled_update env w)"
  by (auto simp add: sync_defs Let_def split: prod.splits sum.splits option.splits)

theorem triggers_agree_witness:
  "store (scheduled_update sample_env sample_world) = [sample_record_1, sample_record_2] \<and>
   store (snd (fetch_news sample_env sample_world)) = store (scheduled_update sample_env sample_world) \<and>
   calls (snd (fetch_news sample_env sample_world)) = calls (scheduled_update sample_env sample_world)"
proof -
  have "store (scheduled_update sample_env sample_world) = [sample_record_1, sample_record_2]"
    by (simp add: sync_defs sample_defs no_articles_def mapArticle_eq news_api_url_def
        NewsSchema_def cast_String_def cast_Date_def)
  then show ?thesis
    using triggers_agree [of sample_env sample_world] by simp
qed

text \<open>
  Claim C2. When the upstream response holds an empty list of articles, neither trigger
  touches the store: the only call made is the fetch, the manual trigger answers 404 with
  the message \<^verbatim>\<open>No news found\<close>, and the scheduled trigger logs and returns.
\<close>

theorem empty_upstream_is_noop:
  assumes "axios_get env (news_api_url env) = Inr data"
    and "property data ''articles'' = JArr []"
  shows "fetch_news env w =
           (\<lparr>status = 404, json = JsonMessage ''No news found''\<rparr>,
            \<lparr>store = store w, calls = calls w @ [AxiosGet (news_api_url env)],
             console = console w @ [Log ''Fetching latest news...'']\<rparr>) \<and>
         scheduled_update env w =
           \<lparr>store = store w, calls = calls w @ [AxiosGet (news_api_url env)],
            console = console w @
              [Log ''Running scheduled news update...'', Log ''No new articles found.'']\<rparr>"
  using assms property_array_not_nullish[of data "''articles''" "[]"]
  by (simp add: sync_defs no_articles_empty_array)


theorem empty_upstream_is_noop_witness:
  "axios_get env_empty_list (news_api_url env_empty_list) =
     Inr (JObj [(''status'', JStr ''ok''), (''articles'', JArr [])]) \<and>
   status (fst (fetch_news env_empty_list sample_world)) = 404 \<and>
   store (snd (fetch_news env_empty_list sample_world)) = [old_article] \<and>
   store (scheduled_update env_empty_list sample_world) = [old_article]"
proof -
  have a: "axios_get env_empty_list (news_api_url env_empty_list) =
     Inr (JObj [(''status'', JStr ''ok''), (''articles'', JArr [])])"
    by (simp add: sample_defs)
  have p: "property (JObj [(''status'', JStr ''ok''), (''articles'', JArr [])]) ''articles'' = JArr []"
    by simp
  show ?thesis
    using empty_upstream_is_noop [OF a p, of sample_world] a
    by (simp add: sample_world_def)
qed

text \<open>
  Claim C1, as stated, fails when a store operation rejects: with two articles upstream
  and an insert that fails, the store holds no record after the run, not two.
\<close>

theorem full_replace_counterexample:
  "axios_get env_insert_fails (news_api_url env_insert_fails) =
     Inr (JObj [(''status'', JStr ''ok''), (''totalResults'', JNum 2),
                (''articles'', JArr [sample_article_1, sample_article_2])]) \<and>
   store (snd (fetch_news env_insert_fails sample_world)) = [] \<and>
   store (scheduled_update env_insert_fails sample_world) = []"
  by (simp add: sync_defs sample_defs no_articles_def mapArticle_eq news_api_url_def
      NewsSchema_def cast_String_def cast_Date_def)

text \<open>
  Claim C1, amended. For every sync run, manual or scheduled, where the upstream list
  holds \<open>N \<ge> 1\<close> entries, the mapping of the list throws nothing (it yields the records
  \<open>latestNews\<close>: no entry is \<^verbatim>\<open>null\<close> and every \<^verbatim>\<open>publishedAt\<close> can be converted), the schema
  accepts every record, and the delete and the insert both succeed, the store after the
  run holds exactly \<open>N\<close> records and none from before: the calls are the fetch, one delete
  of everything, then one insert of the new records. The \<open>i\<close>-th record comes from the
  \<open>i\<close>-th remote article: \<open>title\<close>, \<open>description\<close>, \<open>url\<close> and \<open>imageUrl\<close> (from \<^verbatim>\<open>urlToImage\<close>)
  are the remote values as the schema's \<^verbatim>\<open>String\<close> cast stores them (unchanged when they
  are strings, \<^verbatim>\<open>null\<close> or missing), and \<open>publishedAt\<close> is the valid date parsed from the
  remote timestamp.
\<close>

theorem full_replace_on_success:
  assumes "axios_get env (news_api_url env) = Inr data"
    and "property data ''articles'' = JArr arts"
    and "arts \<noteq> []"
    and "map_err (mapArticle env) arts = Inr latestNews"
    and "NewsSchema_all env latestNews = Some stored"
    and "deleteMany_error env (store w) = None"
    and "insertMany_error env stored = None"
  shows "status (fst (fetch_news env w)) = 200 \<and>
         store (snd (fetch_news env w)) = stored \<and>
         store (scheduled_update env w) = stored \<and>
         calls (snd (fetch_news env w)) =
           calls w @ [AxiosGet (news_api_url env), NewsDeleteMany, NewsInsertMany latestNews] \<and>
         calls (scheduled_update env w) = calls (snd (fetch_news env w)) \<and>
         length stored = length arts \<and>
         (\<forall>i<length arts.
            stored_as env (property (arts ! i) ''title'') (title (stored ! i)) \<and>
            stored_as env (property (arts ! i) ''description'') (description (stored ! i)) \<and>
            stored_as env (property (arts ! i) ''url'') (url (stored ! i)) \<and>
            stored_as env (property (arts ! i) ''urlToImage'') (imageUrl (stored ! i)) \<and>
            newDate env (property (arts ! i) ''publishedAt'') = Some (publishedAt (stored ! i)) \<and>
            publishedAt (stored ! i) \<noteq> None)"
proof -
  have m: "list_all2 (\<lambda>a d. mapArticle env a = Inr d) arts latestNews"
    using assms(4) by (rule map_err_Inr)
  have c: "list_all2 (\<lambda>d s. NewsSchema env d = Some s) latestNews stored"
    using assms(5) by (rule NewsSchema_all_Some)
  have len: "length latestNews = length arts" "length stored = length arts"
    using m c by (simp_all add: list_all2_lengthD)
  have fields: "stored_as env (property (arts ! i) ''title'') (title (stored ! i)) \<and>
      stored_as env (property (arts ! i) ''description'') (description (stored ! i)) \<and>
      stored_as env (property (arts ! i) ''url'') (url (stored ! i)) \<and>
      stored_as env (property (arts ! i) ''urlToImage'') (imageUrl (stored ! i)) \<and>
      newDate env (property (arts ! i) ''publishedAt'') = Some (publishedAt (stored ! i)) \<and>
      publishedAt (stored ! i) \<noteq> None" if i: "i < length arts" for i
  proof -
    have a: "mapArticle env (arts ! i) = Inr (latestNews ! i)"
      using m i by (simp add: list_all2_conv_all_nth)
    have s: "NewsSchema env (latestNews ! i) = Some (stored ! i)"
      using c i len by (simp add: list_all2_conv_all_nth)
    note ma = mapArticle_Inr [OF a] and ns = NewsSchema_Some [OF s]
    have t: "stored_as env (property (arts ! i) ''title'') (title (stored ! i))"
      using ma ns by (simp add: stored_as_cast)
    have d: "stored_as env (property (arts ! i) ''description'') (description (stored ! i))"
      using ma ns by (simp add: stored_as_cast)
    have u: "stored_as env (property (arts ! i) ''url'') (url (stored ! i))"
      using ma ns by (simp add: stored_as_cast)
    have im: "stored_as env (property (arts ! i) ''urlToImage'') (imageUrl (stored ! i))"
      using ma ns by (simp add: stored_as_cast)
    have p: "newDate env (property (arts ! i) ''publishedAt'') = Some (publishedAt (stored ! i))"
      using ma ns by simp
    have v: "publishedAt (stored ! i) \<noteq> None"
      using ns by blast
    show ?thesis
      using t d u im p v by blast
  qed
  show ?thesis
    using run_succeeded [OF assms(1,2,3,4,6,5,7)] len fields by simp
qed

theorem full_replace_on_success_witness:
  "store (snd (fetch_news sample_env sample_world)) = [sample_record_1, sample_record_2] \<and>
   store (scheduled_update sample_env sample_world) = [sample_record_1, sample_record_2] \<and>
   status (fst (fetch_news sample_env sample_world)) = 200 \<and>
   title ([sample_record_1, sample_record_2] ! 0) = property sample_article_1 ''title''"
proof -
  have a: "axios_get sample_env (news_api_url sample_env) = Inr sample_data"
    by (simp add: sample_env_def)
  have p: "property sample_data ''articles'' = JArr [sample_article_1, sample_article_2]"
    by (simp add: sample_data_def)
  have n: "[sample_article_1, sample_article_2] \<noteq> []"
    by simp
  have m: "map_err (mapArticle sample_env) [sample_article_1, sample_article_2] =
      Inr [sample_record_1, sample_record_2]"
    by (simp add: mapArticle_eq sample_defs)
  have c: "NewsSchema_all sample_env [sample_record_1, sample_record_2] =
      Some [sample_record_1, sample_record_2]"
    by (simp add: NewsSchema_def cast_String_def cast_Date_def sample_record_1_def
        sample_record_2_def)
  have d: "deleteMany_error sample_env (store sample_world) = None"
    by (simp add: sample_env_def)
  have i: "insertMany_error sample_env [sample_record_1, sample_record_2] = None"
    by (simp add: sample_env_def)
  have t: "text_or_absent (property sample_article_1 ''title'')"
    by (simp add: sample_article_1_def)
  have "stored_as sample_env (property ([sample_article_1, sample_article_2] ! 0) ''title'')
      (title ([sample_record_1, sample_record_2] ! 0))"
    using full_replace_on_success [OF a p n m c d i] by auto
  then have "title ([sample_record_1, sample_record_2] ! 0) = property sample_article_1 ''title''"
    using t by (simp add: stored_as_def)
  then show ?thesis
    using full_replace_on_success [OF a p n m c d i] by simp
qed

text \<open>
  Claim C3, as stated, fails for a response that lacks an articles list: the guard of
  line 81 answers 404, not 500.
\<close>

theorem missing_list_counterexample:
  "axios_get env_no_list (news_api_url env_no_list) = Inr (JObj [(''status'', JStr ''error'')]) \<and>
   property (JObj [(''status'', JStr ''error'')]) ''articles'' = JUndefined \<and>
   fetch_news env_no_list sample_world =
     (\<lparr>status = 404, json = JsonMessage ''No news found''\<rparr>,
      \<lparr>store = [old_article], calls = [AxiosGet (news_api_url env_no_list)],
       console = [Log ''Fetching latest news...'']\<rparr>)"
  by (simp add: sync_defs sample_defs no_articles_def)

text \<open>
  Claim C3, amended. Every sync run that fails makes the manual trigger answer 500 with
  the message \<^verbatim>\<open>Failed to fetch news\<close>, while the scheduled trigger only logs the error;
  in both the failing step is the last call made and nothing is done to the store after
  it. The failures are: a network error; a response that cannot be processed (no data, an
  articles value that passes the emptiness guard but is not a list, a \<^verbatim>\<open>null\<close> entry in the
  list, an entry whose \<^verbatim>\<open>publishedAt\<close> the date constructor cannot convert); a failing
  delete; an insert refused by the schema or failing in the store. A response without an
  articles list is not such a failure: it is answered 404 and the store is left alone.
\<close>

theorem sync_failure_reported:
  "(axios_get env (news_api_url env) = Inl e \<longrightarrow>
      run_failed env w e [AxiosGet (news_api_url env)] (store w)) \<and>
   (axios_get env (news_api_url env) = Inr data \<and> malformed env data \<longrightarrow>
      run_failed env w TypeError [AxiosGet (news_api_url env)] (store w)) \<and>
   (axios_get env (news_api_url env) = Inr data \<and> property data ''articles'' = JArr arts \<and>
    arts \<noteq> [] \<and> map_err (mapArticle env) arts = Inr latestNews \<and>
    deleteMany_error env (store w) = Some e \<longrightarrow>
      run_failed env w e [AxiosGet (news_api_url env), NewsDeleteMany] (store w)) \<and>
   (axios_get env (news_api_url env) = Inr data \<and> property data ''articles'' = JArr arts \<and>
    arts \<noteq> [] \<and> map_err (mapArticle env) arts = Inr latestNews \<and>
    deleteMany_error env (store w) = None \<and> NewsSchema_all env latestNews = None \<longrightarrow>
      run_failed env w ValidationError
        [AxiosGet (news_api_url env), NewsDeleteMany, NewsInsertMany latestNews] []) \<and>
   (axios_get env (news_api_url env) = Inr data \<and> property data ''articles'' = JArr arts \<and>
    arts \<noteq> [] \<and> map_err (mapArticle env) arts = Inr latestNews \<and>
    deleteMany_error env (store w) = None \<and> NewsSchema_all env latestNews = Some stored \<and>
    insertMany_error env stored = Some e \<longrightarrow>
      run_failed env w e
        [AxiosGet (news_api_url env), NewsDeleteMany, NewsInsertMany latestNews] []) \<and>
   (axios_get env (news_api_url env) = Inr data \<and> data \<noteq> JUndefined \<and> data \<noteq> JNull \<and>
    \<not> truthy (property data ''articles'') \<longrightarrow>
      status (fst (fetch_news env w)) = 404 \<and> store (snd (fetch_news env w)) = store w)"
proof (intro conjI impI)
  assume "axios_get env (news_api_url env) = Inl e"
  then show "run_failed env w e [AxiosGet (news_api_url env)] (store w)"
    by (rule run_network_error)
next
  assume "axios_get env (news_api_url env) = Inr data \<and> malformed env data"
  then show "run_failed env w TypeError [AxiosGet (news_api_url env)] (store w)"
    by (simp add: run_malformed)
next
  assume "axios_get env (news_api_url env) = Inr data \<and> property data ''articles'' = JArr arts \<and>
    arts \<noteq> [] \<and> map_err (mapArticle env) arts = Inr latestNews \<and>
    deleteMany_error env (store w) = Some e"
  then show "run_failed env w e [AxiosGet (news_api_url env), NewsDeleteMany] (store w)"
    by (simp add: run_delete_failed)
next
  assume "axios_get env (news_api_url env) = Inr data \<and> property data ''articles'' = JArr arts \<and>
    arts \<noteq> [] \<and> map_err (mapArticle env) arts = Inr latestNews \<and>
    deleteMany_error env (store w) = None \<and> NewsSchema_all env latestNews = None"
  then show "run_failed env w ValidationError
        [AxiosGet (news_api_url env), NewsDeleteMany, NewsInsertMany latestNews] []"
    by (simp add: run_insert_invalid)
next
  assume "axios_get env (news_api_url env) = Inr data \<and> property data ''articles'' = JArr arts \<and>
    arts \<noteq> [] \<and> map_err (mapArticle env) arts = Inr latestNews \<and>
    deleteMany_error env (store w) = None \<and> NewsSchema_all env latestNews = Some stored \<and>
    insertMany_error env stored = Some e"
  then show "run_failed env w e
        [AxiosGet (news_api_url env), NewsDeleteMany, NewsInsertMany latestNews] []"
    by (simp add: run_insert_failed)
next
  assume h: "axios_get env (news_api_url env) = Inr data \<and> data \<noteq> JUndefined \<and> data \<noteq> JNull \<and>
    \<not> truthy (property data ''articles'')"
  then show "status (fst (fetch_news env w)) = 404"
    by (simp add: sync_defs no_articles_def)
  from h show "store (snd (fetch_news env w)) = store w"
    by (simp add: sync_defs no_articles_def)
qed

theorem sync_failure_reported_witness:
  "run_failed env_offline sample_world (Rejected ''ECONNREFUSED'')
     [AxiosGet (news_api_url env_offline)] [old_article] \<and>
   run_failed env_null_entry sample_world TypeError
     [AxiosGet (news_api_url env_null_entry)] [old_article] \<and>
   run_failed env_bad_timestamp sample_world TypeError
     [AxiosGet (news_api_url env_bad_timestamp)] [old_article] \<and>
   run_failed env_delete_fails sample_world (Rejected ''store down'')
     [AxiosGet (news_api_url env_delete_fails), NewsDeleteMany] [old_article] \<and>
   run_failed env_untyped_title sample_world ValidationError
     [AxiosGet (news_api_url env_untyped_title), NewsDeleteMany,
      NewsInsertMany
        [\<lparr>title = JObj [(''a'', JStr ''b'')], description = JUndefined, url = JUndefined,
          imageUrl = JUndefined, publishedAt = Some 1704067200000\<rparr>]] [] \<and>
   run_failed env_insert_fails sample_world (Rejected ''store down'')
     [AxiosGet (news_api_url env_insert_fails), NewsDeleteMany,
      NewsInsertMany [sample_record_1, sample_record_2]] [] \<and>
   status (fst (fetch_news env_no_list sample_world)) = 404"
proof -
  have 1: "axios_get env_offline (news_api_url env_offline) = Inl (Rejected ''ECONNREFUSED'')"
    by (simp add: sample_defs)
  have 2: "axios_get env_null_entry (news_api_url env_null_entry) =
             Inr (JObj [(''articles'', JArr [JNull])]) \<and>
           malformed env_null_entry (JObj [(''articles'', JArr [JNull])])"
    by (simp add: sample_defs malformed_def no_articles_def entry_throws_def)
  have 3: "axios_get env_bad_timestamp (news_api_url env_bad_timestamp) =
             Inr (JObj [(''articles'',
               JArr [JObj [(''title'', JStr ''Shelter opens''),
                           (''publishedAt'', JObj [(''toString'', JStr ''x'')])]])]) \<and>
           malformed env_bad_timestamp
             (JObj [(''articles'',
               JArr [JObj [(''title'', JStr ''Shelter opens''),
                           (''publishedAt'', JObj [(''toString'', JStr ''x'')])]])])"
    by (simp add: sample_defs malformed_def no_articles_def entry_throws_def)
  have 4: "axios_get env_delete_fails (news_api_url env_delete_fails) = Inr sample_data \<and>
           property sample_data ''articles'' = JArr [sample_article_1, sample_article_2] \<and>
           [sample_article_1, sample_article_2] \<noteq> [] \<and>
           map_err (mapArticle env_delete_fails) [sample_article_1, sample_article_2] =
             Inr [sample_record_1, sample_record_2] \<and>
           deleteMany_error env_delete_fails (store sample_world) = Some (Rejected ''store down'')"
    by (simp add: mapArticle_eq sample_defs)
  have 5: "axios_get env_untyped_title (news_api_url env_untyped_title) =
             Inr (JObj [(''articles'',
               JArr [JObj [(''title'', JObj [(''a'', JStr ''b'')]),
                           (''publishedAt'', JStr ''2024-01-01T00:00:00Z'')]])]) \<and>
           property (JObj [(''articles'',
               JArr [JObj [(''title'', JObj [(''a'', JStr ''b'')]),
                           (''publishedAt'', JStr ''2024-01-01T00:00:00Z'')]])]) ''articles'' =
             JArr [JObj [(''title'', JObj [(''a'', JStr ''b'')]),
                         (''publishedAt'', JStr ''2024-01-01T00:00:00Z'')]] \<and>
           [JObj [(''title'', JObj [(''a'', JStr ''b'')]),
                  (''publishedAt'', JStr ''2024-01-01T00:00:00Z'')]] \<noteq> [] \<and>
           map_err (mapArticle env_untyped_title)
             [JObj [(''title'', JObj [(''a'', JStr ''b'')]),
                    (''publishedAt'', JStr ''2024-01-01T00:00:00Z'')]] =
             Inr [\<lparr>title = JObj [(''a'', JStr ''b'')], description = JUndefined, url = JUndefined,
                   imageUrl = JUndefined, publishedAt = Some 1704067200000\<rparr>] \<and>
           deleteMany_error env_untyped_title (store sample_world) = None \<and>
           NewsSchema_all env_untyped_title
             [\<lparr>title = JObj [(''a'', JStr ''b'')], description = JUndefined, url = JUndefined,
               imageUrl = JUndefined, publishedAt = Some 1704067200000\<rparr>] = None"
    by (simp add: mapArticle_eq sample_defs NewsSchema_def cast_String_def)
  have 6: "axios_get env_insert_fails (news_api_url env_insert_fails) = Inr sample_data \<and>
           property sample_data ''articles'' = JArr [sample_article_1, sample_article_2] \<and>
           [sample_article_1, sample_article_2] \<noteq> [] \<and>
           map_err (mapArticle env_insert_fails) [sample_article_1, sample_article_2] =
             Inr [sample_record_1, sample_record_2] \<and>
           deleteMany_error env_insert_fails (store sample_world) = None \<and>
           NewsSchema_all env_insert_fails [sample_record_1, sample_record_2] =
             Some [sample_record_1, sample_record_2] \<and>
           insertMany_error env_insert_fails [sample_record_1, sample_record_2] =
             Some (Rejected ''store down'')"
    by (simp add: mapArticle_eq sample_defs NewsSchema_def cast_String_def cast_Date_def)
  have 7: "axios_get env_no_list (news_api_url env_no_list) =
             Inr (JObj [(''status'', JStr ''error'')]) \<and>
           JObj [(''status'', JStr ''error'')] \<noteq> JUndefined \<and>
           JObj [(''status'', JStr ''error'')] \<noteq> JNull \<and>
           \<not> truthy (property (JObj [(''status'', JStr ''error'')]) ''articles'')"
    by (simp add: sample_defs)
  have s: "store sample_world = [old_article]"
    by (simp add: sample_world_def)
  have A: "run_failed env_offline sample_world (Rejected ''ECONNREFUSED'')
      [AxiosGet (news_api_url env_offline)] (store sample_world)"
    by (rule sync_failure_reported [THEN conjunct1, THEN mp]) (rule 1)
  have B: "run_failed env_null_entry sample_world TypeError
      [AxiosGet (news_api_url env_null_entry)] (store sample_world)"
    by (rule sync_failure_reported [THEN conjunct2, THEN conjunct1, THEN mp]) (rule 2)
  have B': "run_failed env_bad_timestamp sample_world TypeError
      [AxiosGet (news_api_url env_bad_timestamp)] (store sample_world)"
    by (rule sync_failure_reported [THEN conjunct2, THEN conjunct1, THEN mp]) (rule 3)
  have C: "run_failed env_delete_fails sample_world (Rejected ''store down'')
      [AxiosGet (news_api_url env_delete_fails), NewsDeleteMany] (store sample_world)"
    by (rule sync_failure_reported [THEN conjunct2, THEN conjunct2, THEN conjunct1, THEN mp])
      (rule 4)
  have D: "run_failed env_untyped_title sample_world ValidationError
     [AxiosGet (news_api_url env_untyped_title), NewsDeleteMany,
      NewsInsertMany
        [\<lparr>title = JObj [(''a'', JStr ''b'')], description = JUndefined, url = JUndefined,
          imageUrl = JUndefined, publishedAt = Some 1704067200000\<rparr>]] []"
    by (rule sync_failure_reported
        [THEN conjunct2, THEN conjunct2, THEN conjunct2, THEN conjunct1, THEN mp])
      (rule 5)
  have E: "run_failed env_insert_fails sample_world (Rejected ''store down'')
      [AxiosGet (news_api_url env_insert_fails), NewsDeleteMany,
       NewsInsertMany [sample_record_1, sample_record_2]] []"
    by (rule sync_failure_reported
        [THEN conjunct2, THEN conjunct2, THEN conjunct2, THEN conjunct2, THEN conjunct1, THEN mp])
      (rule 6)
  have F: "status (fst (fetch_news env_no_list sample_world)) = 404 \<and>
      store (snd (fetch_news env_no_list sample_world)) = store sample_world"
    by (rule sync_failure_reported
        [THEN conjunct2, THEN conjunct2, THEN conjunct2, THEN conjunct2, THEN conjunct2, THEN mp])
      (rule 7)
  show ?thesis
    using A B B' C D E F unfolding s by (intro conjI) simp_all
qed

text \<open>
  Claim C9. A failed run is not atomic. When the upstream list is non-empty, the run
  reaches the delete (the mapping of the list yields the records \<open>latestNews\<close>), the delete
  succeeds and the insert fails, because the schema refuses a record or because the store
  rejects the write, the manual trigger answers 500 and the scheduled trigger logs, yet
  the store is already empty: whatever it held before the run is gone.
\<close>

theorem failed_insert_loses_store:
  assumes "axios_get env (news_api_url env) = Inr data"
    and "property data ''articles'' = JArr arts"
    and "arts \<noteq> []"
    and "map_err (mapArticle env) arts = Inr latestNews"
    and "deleteMany_error env (store w) = None"
    and "NewsSchema_all env latestNews = None \<or>
         (\<exists>stored e. NewsSchema_all env latestNews = Some stored \<and>
                     insertMany_error env stored = Some e)"
  shows "status (fst (fetch_news env w)) = 500 \<and>
         store (snd (fetch_news env w)) = [] \<and>
         store (scheduled_update env w) = [] \<and>
         (store w \<noteq> [] \<longrightarrow>
            store (snd (fetch_news env w)) \<noteq> store w \<and> store (scheduled_update env w) \<noteq> store w)"
proof -
  have "\<exists>e. run_failed env w e
      [AxiosGet (news_api_url env), NewsDeleteMany, NewsInsertMany latestNews] []"
    using assms(6) run_insert_invalid [OF assms(1,2,3,4,5)] run_insert_failed [OF assms(1,2,3,4,5)]
    by blast
  then show ?thesis
    by (auto simp: run_failed_def)
qed

theorem failed_insert_loses_store_witness:
  "store sample_world = [old_article] \<and>
   status (fst (fetch_news env_insert_fails sample_world)) = 500 \<and>
   store (snd (fetch_news env_insert_fails sample_world)) = [] \<and>
   store (scheduled_update env_insert_fails sample_world) = []"
proof -
  have a: "axios_get env_insert_fails (news_api_url env_insert_fails) = Inr sample_data"
    by (simp add: env_insert_fails_def sample_env_def)
  have p: "property sample_data ''articles'' = JArr [sample_article_1, sample_article_2]"
    by (simp add: sample_data_def)
  have n: "[sample_article_1, sample_article_2] \<noteq> []"
    by simp
  have m: "map_err (mapArticle env_insert_fails) [sample_article_1, sample_article_2] =
      Inr [sample_record_1, sample_record_2]"
    by (simp add: mapArticle_eq sample_defs)
  have d: "deleteMany_error env_insert_fails (store sample_world) = None"
    by (simp add: env_insert_fails_def sample_env_def)
  have i: "NewsSchema_all env_insert_fails [sample_record_1, sample_record_2] = None \<or>
      (\<exists>stored e. NewsSchema_all env_insert_fails [sample_record_1, sample_record_2] = Some stored \<and>
                  insertMany_error env_insert_fails stored = Some e)"
    by (simp add: NewsSchema_def cast_String_def cast_Date_def sample_defs)
  have s: "store sample_world = [old_article]"
    by (simp add: sample_world_def)
  show ?thesis
    using failed_insert_loses_store [OF a p n m d i] s by simp
qed

text \<open>
  Claim C5. For every content of the store, in whatever order it is held,
  \<^verbatim>\<open>GET /api/news\<close> answers 200 with all stored records, each exactly once, ordered by
  \<open>publishedAt\<close> from newest to oldest, and any other arrangement of the same records
  gives the same sequence of dates; when the read fails it answers 500. The store is not
  changed either way.
\<close>

theorem get_news_newest_first:
  "(find_error env (store w) = None \<longrightarrow>
      fst (get_news env w) = \<lparr>status = 200, json = JsonNews (sort_publishedAt_desc (store w))\<rparr> \<and>
      mset (sort_publishedAt_desc (store w)) = mset (store w) \<and>
      sorted_wrt (\<lambda>a b. publishedAt b \<le> publishedAt a) (sort_publishedAt_desc (store w)) \<and>
      (\<forall>docs. mset docs = mset (store w) \<longrightarrow>
         map publishedAt (sort_publishedAt_desc docs) =
         map publishedAt (sort_publishedAt_desc (store w)))) \<and>
   (find_error env (store w) = Some e \<longrightarrow>
      fst (get_news env w) = \<lparr>status = 500, json = JsonError ''Failed to fetch news''\<rparr>) \<and>
   store (snd (get_news env w)) = store w"
proof (intro conjI impI allI)
  assume "find_error env (store w) = None"
  then show "fst (get_news env w) =
      \<lparr>status = 200, json = JsonNews (sort_publishedAt_desc (store w))\<rparr>"
    by (simp add: get_news_def News_find_sort_def)
next
  show "mset (sort_publishedAt_desc (store w)) = mset (store w)"
    by (rule mset_sort_publishedAt)
next
  show "sorted_wrt (\<lambda>a b. publishedAt b \<le> publishedAt a) (sort_publishedAt_desc (store w))"
    by (rule sorted_desc_sort_publishedAt)
next
  fix docs
  assume "mset docs = mset (store w)"
  then show "map publishedAt (sort_publishedAt_desc docs) =
      map publishedAt (sort_publishedAt_desc (store w))"
    by (rule dates_of_sort_permutation)
next
  assume "find_error env (store w) = Some e"
  then show "fst (get_news env w) = \<lparr>status = 500, json = JsonError ''Failed to fetch news''\<rparr>"
    by (simp add: get_news_def News_find_sort_def)
next
  show "store (snd (get_news env w)) = store w"
    by (simp add: get_news_def News_find_sort_def called_def split: option.splits)
qed

theorem get_news_newest_first_witness:
  "map publishedAt (store unordered_world) = [Some 1704067200000, None, Some 1704153600000] \<and>
   (\<exists>news. fst (get_news sample_env unordered_world) = \<lparr>status = 200, json = JsonNews news\<rparr> \<and>
      map publishedAt news = [Some 1704153600000, Some 1704067200000, None] \<and>
      map title news = [JStr ''second'', JStr ''first'', JStr ''undated'']) \<and>
   status (fst (get_news env_find_fails unordered_world)) = 500"
proof -
  have ok: "find_error sample_env (store unordered_world) = None"
    by (simp add: sample_env_def)
  have bad: "find_error env_find_fails (store unordered_world) = Some (Rejected ''store down'')"
    by (simp add: env_find_fails_def sample_env_def)
  have 1: "fst (get_news sample_env unordered_world) =
      \<lparr>status = 200, json = JsonNews (sort_publishedAt_desc (store unordered_world))\<rparr>"
    using get_news_newest_first [of sample_env unordered_world] ok by simp
  have 2: "fst (get_news env_find_fails unordered_world) =
      \<lparr>status = 500, json = JsonError ''Failed to fetch news''\<rparr>"
    using get_news_newest_first [of env_find_fails unordered_world "Rejected ''store down''"] bad
    by simp
  have 3: "map publishedAt (sort_publishedAt_desc (store unordered_world)) =
      [Some 1704153600000, Some 1704067200000, None]"
    by (simp add: sort_publishedAt_desc_def unordered_world_def)
  have 4: "map title (sort_publishedAt_desc (store unordered_world)) =
      [JStr ''second'', JStr ''first'', JStr ''undated'']"
    by (simp add: sort_publishedAt_desc_def unordered_world_def)
  have 5: "map publishedAt (store unordered_world) =
      [Some 1704067200000, None, Some 1704153600000]"
    by (simp add: unordered_world_def)
  show ?thesis
    using 1 2 3 4 5 by simp
qed

text \<open>
  Claim C6. A \<^verbatim>\<open>POST /api/news\<close> whose \<^verbatim>\<open>Authorization\<close> header carries no token (no
  header, no second piece after a space, or an empty one) is answered 401 and nothing
  else happens; one whose token is refused by the verifier is answered 403 and the only
  call made is the verification. In both cases \<^verbatim>\<open>verifyToken\<close> answers itself instead of
  passing on, so the protected handler does not run, the store is not written, and the
  outcome is the same whatever the body holds.
\<close>

theorem unauthenticated_post_rejected:
  "(header_token (authorization req) = None \<or> header_token (authorization req) = Some [] \<longrightarrow>
      verifyToken env req w = (Respond \<lparr>status = 401, json = JsonError ''Unauthorized''\<rparr>, w) \<and>
      (\<forall>b. post_news env (req\<lparr>body := b\<rparr>) w =
             (\<lparr>status = 401, json = JsonError ''Unauthorized''\<rparr>, w))) \<and>
   (header_token (authorization req) = Some t \<and> t \<noteq> [] \<and> verifyIdToken env t = Inl e \<longrightarrow>
      verifyToken env req w =
        (Respond \<lparr>status = 403, json = JsonError ''Invalid token''\<rparr>,
         w\<lparr>calls := calls w @ [VerifyIdToken t]\<rparr>) \<and>
      (\<forall>b. post_news env (req\<lparr>body := b\<rparr>) w =
             (\<lparr>status = 403, json = JsonError ''Invalid token''\<rparr>,
              w\<lparr>calls := calls w @ [VerifyIdToken t]\<rparr>)))"
proof (intro conjI impI allI)
  assume h: "header_token (authorization req) = None \<or> header_token (authorization req) = Some []"
  then show "verifyToken env req w =
      (Respond \<lparr>status = 401, json = JsonError ''Unauthorized''\<rparr>, w)"
    by (rule verifyToken_missing)
  fix b
  from h have "header_token (authorization (req\<lparr>body := b\<rparr>)) = None \<or>
      header_token (authorization (req\<lparr>body := b\<rparr>)) = Some []"
    by simp
  then show "post_news env (req\<lparr>body := b\<rparr>) w =
      (\<lparr>status = 401, json = JsonError ''Unauthorized''\<rparr>, w)"
    by (simp add: post_news_def verifyToken_missing)
next
  assume h: "header_token (authorization req) = Some t \<and> t \<noteq> [] \<and> verifyIdToken env t = Inl e"
  then show "verifyToken env req w =
      (Respond \<lparr>status = 403, json = JsonError ''Invalid token''\<rparr>,
       w\<lparr>calls := calls w @ [VerifyIdToken t]\<rparr>)"
    by (simp add: verifyToken_invalid)
  fix b
  from h have "header_token (authorization (req\<lparr>body := b\<rparr>)) = Some t"
    by simp
  with h show "post_news env (req\<lparr>body := b\<rparr>) w =
      (\<lparr>status = 403, json = JsonError ''Invalid token''\<rparr>,
       w\<lparr>calls := calls w @ [VerifyIdToken t]\<rparr>)"
    by (simp add: post_news_def verifyToken_invalid)
qed

theorem unauthenticated_post_rejected_witness:
  "post_news sample_env req_no_header sample_world =
     (\<lparr>status = 401, json = JsonError ''Unauthorized''\<rparr>, sample_world) \<and>
   post_news sample_env req_scheme_only sample_world =
     (\<lparr>status = 401, json = JsonError ''Unauthorized''\<rparr>, sample_world) \<and>
   post_news sample_env req_forged sample_world =
     (\<lparr>status = 403, json = JsonError ''Invalid token''\<rparr>,
      sample_world\<lparr>calls := [VerifyIdToken ''forged'']\<rparr>)"
proof -
  have 1: "header_token (authorization req_no_header) = None \<or>
           header_token (authorization req_no_header) = Some []"
    by (simp add: req_no_header_def header_token_def)
  have 2: "header_token (authorization req_scheme_only) = None \<or>
           header_token (authorization req_scheme_only) = Some []"
    by (simp add: req_scheme_only_def header_token_def)
  have 3: "header_token (authorization req_forged) = Some ''forged'' \<and> ''forged'' \<noteq> [] \<and>
           verifyIdToken sample_env ''forged'' = Inl (Rejected ''invalid token'')"
    by (simp add: req_forged_def header_token_def sample_env_def)
  have b1: "req_no_header\<lparr>body := full_body\<rparr> = req_no_header"
    by (simp add: req_no_header_def)
  have b2: "req_scheme_only\<lparr>body := full_body\<rparr> = req_scheme_only"
    by (simp add: req_scheme_only_def)
  have b3: "req_forged\<lparr>body := full_body\<rparr> = req_forged"
    by (simp add: req_forged_def)
  have A: "post_news sample_env (req_no_header\<lparr>body := full_body\<rparr>) sample_world =
      (\<lparr>status = 401, json = JsonError ''Unauthorized''\<rparr>, sample_world)"
    using unauthenticated_post_rejected [of req_no_header sample_env sample_world, THEN conjunct1,
        THEN mp, OF 1]
    by blast
  have B: "post_news sample_env (req_scheme_only\<lparr>body := full_body\<rparr>) sample_world =
      (\<lparr>status = 401, json = JsonError ''Unauthorized''\<rparr>, sample_world)"
    using unauthenticated_post_rejected [of req_scheme_only sample_env sample_world,
        THEN conjunct1, THEN mp, OF 2]
    by blast
  have C: "post_news sample_env (req_forged\<lparr>body := full_body\<rparr>) sample_world =
      (\<lparr>status = 403, json = JsonError ''Invalid token''\<rparr>,
       sample_world\<lparr>calls := calls sample_world @ [VerifyIdToken ''forged'']\<rparr>)"
    using unauthenticated_post_rejected [where req = req_forged and t = "''forged''"
        and env = sample_env and e = "Rejected ''invalid token''" and w = sample_world,
        THEN conjunct2, THEN mp, OF 3]
    by blast
  have c: "calls sample_world = []"
    by (simp add: sample_world_def)
  show ?thesis
    using A B C unfolding b1 b2 b3 c by simp
qed

text \<open>
  Claim C7, as stated, fails for a field that is present but cannot be turned into text:
  with a \<open>name\<close> that is an object carrying a property \<^verbatim>\<open>toString\<close> of its own, the
  template literal of line 157 throws before the \<^verbatim>\<open>try\<close> block; the relay is not called
  and the handler sends no response.
\<close>

theorem present_fields_counterexample:
  "body_field msg_odd_name ''name'' = JObj [(''toString'', JStr ''x'')] \<and>
   body_field msg_odd_name ''email'' = JStr ''ada@example.org'' \<and>
   body_field msg_odd_name ''message'' = JStr ''I can help'' \<and>
   send_message sample_env msg_odd_name sample_world = (Inl TypeError, sample_world) \<and>
   calls (snd (send_message sample_env msg_odd_name sample_world)) = []"
  by (simp add: send_message_def body_field_def msg_odd_name_def mailOptions_def template_def
      sample_env_def sample_toString_def sample_world_def)

text \<open>
  Claim C7, amended. A \<^verbatim>\<open>POST /send-message\<close> in which \<open>name\<close>, \<open>email\<close> or \<open>message\<close> is
  absent or empty (more generally falsy) is answered 400 and no call is made at all, so
  none to the mail relay. When all three are present (truthy) and can be turned into the
  text of the message, as every string can, the relay is called exactly once with that
  message; the answer is 500 when the call fails and 200 otherwise. When a present field
  cannot be turned into text, the handler throws before the relay is called: it makes no
  call and sends no response.
\<close>

theorem send_message_validates:
  "(\<forall>k. map_of (body req) k = None \<or> map_of (body req) k = Some (JStr []) \<longrightarrow>
        \<not> truthy (body_field req k)) \<and>
   (\<not> truthy (body_field req ''name'') \<or> \<not> truthy (body_field req ''email'') \<or>
    \<not> truthy (body_field req ''message'') \<longrightarrow>
      send_message env req w =
        (Inr \<lparr>status = 400, json = JsonError ''All fields are required.''\<rparr>, w)) \<and>
   (truthy (body_field req ''name'') \<and> truthy (body_field req ''email'') \<and>
    truthy (body_field req ''message'') \<and>
    mailOptions env (body_field req ''name'') (body_field req ''email'')
      (body_field req ''message'') = Inr options \<longrightarrow>
      calls (snd (send_message env req w)) = calls w @ [SendMail options] \<and>
      store (snd (send_message env req w)) = store w \<and>
      (sendMail env options = None \<longrightarrow>
         fst (send_message env req w) =
           Inr \<lparr>status = 200, json = JsonMessage ''Message sent successfully!''\<rparr>) \<and>
      (sendMail env options \<noteq> None \<longrightarrow>
         fst (send_message env req w) =
           Inr \<lparr>status = 500, json = JsonError ''Failed to send message.''\<rparr>)) \<and>
   (truthy (body_field req ''name'') \<and> truthy (body_field req ''email'') \<and>
    truthy (body_field req ''message'') \<and>
    mailOptions env (body_field req ''name'') (body_field req ''email'')
      (body_field req ''message'') = Inl e \<longrightarrow>
      send_message env req w = (Inl e, w)) \<and>
   mailOptions env (JStr n) (JStr a) (JStr m) =
     Inr \<lparr>from_addr = EMAIL_USER env, to_addr = EMAIL_USER env,
          subject = ''New Volunteer Message from '' @ n,
          text_body = ''Name: '' @ n @ [CHR 0x0A] @ ''Email: '' @ a @ [CHR 0x0A, CHR 0x0A]
            @ ''Message:'' @ [CHR 0x0A] @ m\<rparr>"
proof (intro conjI impI allI)
  fix k
  assume "map_of (body req) k = None \<or> map_of (body req) k = Some (JStr [])"
  then show "\<not> truthy (body_field req k)"
    by (auto simp: body_field_lookup)
next
  assume "\<not> truthy (body_field req ''name'') \<or> \<not> truthy (body_field req ''email'') \<or>
    \<not> truthy (body_field req ''message'')"
  then show "send_message env req w =
      (Inr \<lparr>status = 400, json = JsonError ''All fields are required.''\<rparr>, w)"
    by (auto simp: send_message_def Let_def)
next
  assume h: "truthy (body_field req ''name'') \<and> truthy (body_field req ''email'') \<and>
    truthy (body_field req ''message'') \<and>
    mailOptions env (body_field req ''name'') (body_field req ''email'')
      (body_field req ''message'') = Inr options"
  then show "calls (snd (send_message env req w)) = calls w @ [SendMail options]"
    by (simp add: send_message_def Let_def transporter_sendMail_def called_def log_def
        split: option.splits)
  from h show "store (snd (send_message env req w)) = store w"
    by (simp add: send_message_def Let_def transporter_sendMail_def called_def log_def
        split: option.splits)
  {
    assume "sendMail env options = None"
    with h show "fst (send_message env req w) =
        Inr \<lparr>status = 200, json = JsonMessage ''Message sent successfully!''\<rparr>"
      by (simp add: send_message_def Let_def transporter_sendMail_def)
  }
  {
    assume "sendMail env options \<noteq> None"
    with h show "fst (send_message env req w) =
        Inr \<lparr>status = 500, json = JsonError ''Failed to send message.''\<rparr>"
      by (auto simp add: send_message_def Let_def transporter_sendMail_def)
  }
next
  assume "truthy (body_field req ''name'') \<and> truthy (body_field req ''email'') \<and>
    truthy (body_field req ''message'') \<and>
    mailOptions env (body_field req ''name'') (body_field req ''email'')
      (body_field req ''message'') = Inl e"
  then show "send_message env req w = (Inl e, w)"
    by (simp add: send_message_def Let_def)
next
  show "mailOptions env (JStr n) (JStr a) (JStr m) =
     Inr \<lparr>from_addr = EMAIL_USER env, to_addr = EMAIL_USER env,
          subject = ''New Volunteer Message from '' @ n,
          text_body = ''Name: '' @ n @ [CHR 0x0A] @ ''Email: '' @ a @ [CHR 0x0A, CHR 0x0A]
            @ ''Message:'' @ [CHR 0x0A] @ m\<rparr>"
    by (simp add: mailOptions_def template_def)
qed

theorem send_message_validates_witness:
  "send_message sample_env msg_blank_email sample_world =
     (Inr \<lparr>status = 400, json = JsonError ''All fields are required.''\<rparr>, sample_world) \<and>
   send_message sample_env msg_no_message sample_world =
     (Inr \<lparr>status = 400, json = JsonError ''All fields are required.''\<rparr>, sample_world) \<and>
   calls (snd (send_message env_mail_fails msg_full sample_world)) =
     [SendMail \<lparr>from_addr = Some ''team@example.org'', to_addr = Some ''team@example.org'',
                subject = ''New Volunteer Message from Ada'',
                text_body = ''Name: Ada'' @ [CHR 0x0A] @ ''Email: ada@example.org'' @
                  [CHR 0x0A, CHR 0x0A] @ ''Message:'' @ [CHR 0x0A] @ ''I can help''\<rparr>] \<and>
   fst (send_message env_mail_fails msg_full sample_world) =
     Inr \<lparr>status = 500, json = JsonError ''Failed to send message.''\<rparr> \<and>
   fst (send_message sample_env msg_full sample_world) =
     Inr \<lparr>status = 200, json = JsonMessage ''Message sent successfully!''\<rparr> \<and>
   send_message sample_env msg_odd_name sample_world = (Inl TypeError, sample_world)"
proof -
  let ?mail = "\<lparr>from_addr = Some ''team@example.org'', to_addr = Some ''team@example.org'',
       subject = ''New Volunteer Message from Ada'',
       text_body = ''Name: Ada'' @ [CHR 0x0A] @ ''Email: ada@example.org'' @
         [CHR 0x0A, CHR 0x0A] @ ''Message:'' @ [CHR 0x0A] @ ''I can help''\<rparr>"
  have e: "map_of (body msg_blank_email) ''email'' = None \<or>
           map_of (body msg_blank_email) ''email'' = Some (JStr [])"
    by (simp add: msg_blank_email_def)
  have m: "map_of (body msg_no_message) ''message'' = None \<or>
           map_of (body msg_no_message) ''message'' = Some (JStr [])"
    by (simp add: msg_no_message_def)
  have 1: "\<not> truthy (body_field msg_blank_email ''email'')"
    using send_message_validates [where req = msg_blank_email, THEN conjunct1] e
    by blast
  have 2: "\<not> truthy (body_field msg_no_message ''message'')"
    using send_message_validates [where req = msg_no_message, THEN conjunct1] m
    by blast
  have A: "send_message sample_env msg_blank_email sample_world =
      (Inr \<lparr>status = 400, json = JsonError ''All fields are required.''\<rparr>, sample_world)"
    using send_message_validates [where req = msg_blank_email and env = sample_env
        and w = sample_world, THEN conjunct2, THEN conjunct1] 1
    by blast
  have B: "send_message sample_env msg_no_message sample_world =
      (Inr \<lparr>status = 400, json = JsonError ''All fields are required.''\<rparr>, sample_world)"
    using send_message_validates [where req = msg_no_message and env = sample_env
        and w = sample_world, THEN conjunct2, THEN conjunct1] 2
    by blast
  have f: "body_field msg_full ''name'' = JStr ''Ada''"
    "body_field msg_full ''email'' = JStr ''ada@example.org''"
    "body_field msg_full ''message'' = JStr ''I can help''"
    by (simp_all add: msg_full_def body_field_def)
  have o1: "mailOptions env_mail_fails (JStr ''Ada'') (JStr ''ada@example.org'')
      (JStr ''I can help'') = Inr ?mail"
    by (simp add: mailOptions_def template_def env_mail_fails_def sample_env_def)
  have o2: "mailOptions sample_env (JStr ''Ada'') (JStr ''ada@example.org'')
      (JStr ''I can help'') = Inr ?mail"
    by (simp add: mailOptions_def template_def sample_env_def)
  have t1: "truthy (body_field msg_full ''name'') \<and> truthy (body_field msg_full ''email'') \<and>
      truthy (body_field msg_full ''message'') \<and>
      mailOptions env_mail_fails (body_field msg_full ''name'') (body_field msg_full ''email'')
        (body_field msg_full ''message'') = Inr ?mail"
    by (simp add: f o1)
  have t2: "truthy (body_field msg_full ''name'') \<and> truthy (body_field msg_full ''email'') \<and>
      truthy (body_field msg_full ''message'') \<and>
      mailOptions sample_env (body_field msg_full ''name'') (body_field msg_full ''email'')
        (body_field msg_full ''message'') = Inr ?mail"
    by (simp add: f o2)
  have r1: "sendMail env_mail_fails ?mail \<noteq> None"
    by (simp add: env_mail_fails_def)
  have r2: "sendMail sample_env ?mail = None"
    by (simp add: sample_env_def)
  have c: "calls sample_world = []"
    by (simp add: sample_world_def)
  have C: "calls (snd (send_message env_mail_fails msg_full sample_world)) = [SendMail ?mail] \<and>
      fst (send_message env_mail_fails msg_full sample_world) =
        Inr \<lparr>status = 500, json = JsonError ''Failed to send message.''\<rparr>"
    using send_message_validates [where req = msg_full and env = env_mail_fails
        and w = sample_world and options = ?mail,
        THEN conjunct2, THEN conjunct2, THEN conjunct1, THEN mp, OF t1] r1 c
    by simp
  have D: "fst (send_message sample_env msg_full sample_world) =
        Inr \<lparr>status = 200, json = JsonMessage ''Message sent successfully!''\<rparr>"
    using send_message_validates [where req = msg_full and env = sample_env
        and w = sample_world and options = ?mail,
        THEN conjunct2, THEN conjunct2, THEN conjunct1, THEN mp, OF t2] r2
    by simp
  have g: "truthy (body_field msg_odd_name ''name'') \<and> truthy (body_field msg_odd_name ''email'') \<and>
      truthy (body_field msg_odd_name ''message'') \<and>
      mailOptions sample_env (body_field msg_odd_name ''name'') (body_field msg_odd_name ''email'')
        (body_field msg_odd_name ''message'') = Inl TypeError"
    by (simp add: msg_odd_name_def body_field_def mailOptions_def template_def sample_env_def
        sample_toString_def)
  have E: "send_message sample_env msg_odd_name sample_world = (Inl TypeError, sample_world)"
    by (rule send_message_validates [where req = msg_odd_name and env = sample_env
        and w = sample_world and e = TypeError,
        THEN conjunct2, THEN conjunct2, THEN conjunct2, THEN conjunct1, THEN mp, OF g])
  show ?thesis
    using A B C D E by simp
qed

text \<open>
  Claim C8. An authenticated \<^verbatim>\<open>POST /api/news\<close> that succeeds (the token is verified, the
  schema accepts the record built from the body and the save goes through) is answered
  201 and adds exactly one record to the store: its \<open>title\<close>, \<open>description\<close>, \<open>url\<close> and
  \<open>imageUrl\<close> are those of the request body as the schema's \<^verbatim>\<open>String\<close> cast stores them
  (unchanged when they are strings, \<^verbatim>\<open>null\<close> or missing), and its \<open>publishedAt\<close> is the
  time of the call.
\<close>

theorem post_news_creates_one:
  assumes "header_token (authorization req) = Some t"
    and "t \<noteq> []"
    and "verifyIdToken env t = Inr d"
    and "NewsSchema env (newNews env req) = Some doc"
    and "save_error env doc = None"
  shows "status (fst (post_news env req w)) = 201 \<and>
         store (snd (post_news env req w)) = store w @ [doc] \<and>
         length (store (snd (post_news env req w))) = length (store w) + 1 \<and>
         stored_as env (body_field req ''title'') (title doc) \<and>
         stored_as env (body_field req ''description'') (description doc) \<and>
         stored_as env (body_field req ''url'') (url doc) \<and>
         stored_as env (body_field req ''imageUrl'') (imageUrl doc) \<and>
         publishedAt doc = Some (now env)"
proof -
  have "status (fst (post_news env req w)) = 201 \<and>
      store (snd (post_news env req w)) = store w @ [doc]"
    using assms(4,5) by (simp add: post_news_valid [OF assms(1,2,3)])
  moreover have "stored_as env (body_field req ''title'') (title doc) \<and>
      stored_as env (body_field req ''description'') (description doc) \<and>
      stored_as env (body_field req ''url'') (url doc) \<and>
      stored_as env (body_field req ''imageUrl'') (imageUrl doc) \<and>
      publishedAt doc = Some (now env)"
    using NewsSchema_Some [OF assms(4)] by (simp add: newNews_def stored_as_cast)
  ultimately show ?thesis by simp
qed

theorem post_news_creates_one_witness:
  "status (fst (post_news sample_env req_good sample_world)) = 201 \<and>
   store (snd (post_news sample_env req_good sample_world)) =
     [old_article,
      \<lparr>title = JStr ''Winter drive'', description = JStr ''Coats wanted'',
       url = JStr ''https://example.org/d'', imageUrl = JStr ''https://example.org/d.png'',
       publishedAt = Some 1704240000000\<rparr>] \<and>
   store (snd (post_news sample_env req_numeric_title sample_world)) =
     [old_article,
      \<lparr>title = JStr ''5'', description = JUndefined, url = JUndefined, imageUrl = JUndefined,
       publishedAt = Some 1704240000000\<rparr>]"
proof -
  have h: "header_token (authorization req_good) = Some ''good''"
    "header_token (authorization req_numeric_title) = Some ''good''"
    by (simp_all add: req_good_def req_numeric_title_def header_token_def)
  have n: "''good'' \<noteq> []"
    by simp
  have v: "verifyIdToken sample_env ''good'' = Inr (JObj [(''uid'', JStr ''u1'')])"
    by (simp add: sample_env_def)
  have c1: "NewsSchema sample_env (newNews sample_env req_good) =
      Some \<lparr>title = JStr ''Winter drive'', description = JStr ''Coats wanted'',
            url = JStr ''https://example.org/d'', imageUrl = JStr ''https://example.org/d.png'',
            publishedAt = Some 1704240000000\<rparr>"
    by (simp add: NewsSchema_def cast_String_def cast_Date_def newNews_def body_field_def
        req_good_def full_body_def sample_env_def)
  have c2: "NewsSchema sample_env (newNews sample_env req_numeric_title) =
      Some \<lparr>title = JStr ''5'', description = JUndefined, url = JUndefined,
            imageUrl = JUndefined, publishedAt = Some 1704240000000\<rparr>"
    by (simp add: NewsSchema_def cast_String_def cast_Date_def newNews_def body_field_def
        req_numeric_title_def sample_env_def sample_castString_def)
  have s: "save_error sample_env doc = None" for doc
    by (simp add: sample_env_def)
  have w: "store sample_world = [old_article]"
    by (simp add: sample_world_def)
  show ?thesis
    using post_news_creates_one [OF h(1) n v c1 s, of sample_world]
      post_news_creates_one [OF h(2) n v c2 s, of sample_world]
    unfolding w by simp
qed

text \<open>
  Claim C10, as stated, fails in two ways. The body is validated, by the schema: a request
  with a valid token whose \<open>title\<close> is an object is answered 500 and nothing is stored. And
  a request the schema accepts is answered 500 as well when the save is rejected.
\<close>

theorem post_news_always_201_counterexample:
  "header_token (authorization req_object_title) = Some ''good'' \<and>
   header_token (authorization req_good) = Some ''good'' \<and>
   verifyIdToken sample_env ''good'' = Inr (JObj [(''uid'', JStr ''u1'')]) \<and>
   verifyIdToken env_save_fails ''good'' = Inr (JObj [(''uid'', JStr ''u1'')]) \<and>
   body_field req_object_title ''title'' = JObj [(''a'', JStr ''b'')] \<and>
   fst (post_news sample_env req_object_title sample_world) =
     \<lparr>status = 500, json = JsonError ''Failed to add news''\<rparr> \<and>
   store (snd (post_news sample_env req_object_title sample_world)) = store sample_world \<and>
   fst (post_news env_save_fails req_good sample_world) =
     \<lparr>status = 500, json = JsonError ''Failed to add news''\<rparr> \<and>
   store (snd (post_news env_save_fails req_good sample_world)) = store sample_world"
  by (simp add: post_news_def verifyToken_def auth_verifyIdToken_def post_news_handler_def
      News_save_def called_def header_token_def req_good_def req_object_title_def full_body_def
      env_save_fails_def sample_env_def sample_castString_def NewsSchema_def cast_String_def
      cast_Date_def newNews_def body_field_def)

text \<open>
  Claim C10, amended. The handler of \<^verbatim>\<open>POST /api/news\<close> makes no check of its own on the
  body; the only validation is the schema's cast when the record is saved. For every
  request with a valid token, whatever its body, the handler builds a record whose
  \<open>title\<close>, \<open>description\<close>, \<open>url\<close> and \<open>imageUrl\<close> are the body's where present and unset where
  absent, with \<open>publishedAt\<close> the current time, and hands it to the store. When the schema
  accepts the record, as it always does when every one of the four fields is a string,
  \<^verbatim>\<open>null\<close> or absent, and the save succeeds, the answer is 201 and the record is stored with
  its fields as the schema casts them; when the schema refuses the record or the save
  fails, the answer is 500 and nothing is stored.
\<close>

theorem post_news_no_body_validation:
  assumes "header_token (authorization req) = Some t"
    and "t \<noteq> []"
    and "verifyIdToken env t = Inr d"
  shows "newNews env req =
           \<lparr>title = (case map_of (body req) ''title'' of None \<Rightarrow> JUndefined | Some v \<Rightarrow> v),
            description =
              (case map_of (body req) ''description'' of None \<Rightarrow> JUndefined | Some v \<Rightarrow> v),
            url = (case map_of (body req) ''url'' of None \<Rightarrow> JUndefined | Some v \<Rightarrow> v),
            imageUrl =
              (case map_of (body req) ''imageUrl'' of None \<Rightarrow> JUndefined | Some v \<Rightarrow> v),
            publishedAt = Some (now env)\<rparr> \<and>
         calls (snd (post_news env req w)) =
           calls w @ [VerifyIdToken t, NewsSave (newNews env req)] \<and>
         (\<forall>doc. NewsSchema env (newNews env req) = Some doc \<and> save_error env doc = None \<longrightarrow>
            fst (post_news env req w) =
              \<lparr>status = 201, json = JsonMessage ''News added successfully!''\<rparr> \<and>
            store (snd (post_news env req w)) = store w @ [doc] \<and>
            stored_as env (body_field req ''title'') (title doc) \<and>
            stored_as env (body_field req ''description'') (description doc) \<and>
            stored_as env (body_field req ''url'') (url doc) \<and>
            stored_as env (body_field req ''imageUrl'') (imageUrl doc) \<and>
            publishedAt doc = Some (now env)) \<and>
         (NewsSchema env (newNews env req) = None \<or>
          (\<exists>doc e. NewsSchema env (newNews env req) = Some doc \<and> save_error env doc = Some e) \<longrightarrow>
            fst (post_news env req w) = \<lparr>status = 500, json = JsonError ''Failed to add news''\<rparr> \<and>
            store (snd (post_news env req w)) = store w) \<and>
         (text_or_absent (body_field req ''title'') \<and>
          text_or_absent (body_field req ''description'') \<and>
          text_or_absent (body_field req ''url'') \<and>
          text_or_absent (body_field req ''imageUrl'') \<longrightarrow>
            NewsSchema env (newNews env req) = Some (newNews env req))"
proof (intro conjI impI allI)
  show "newNews env req =
           \<lparr>title = (case map_of (body req) ''title'' of None \<Rightarrow> JUndefined | Some v \<Rightarrow> v),
            description =
              (case map_of (body req) ''description'' of None \<Rightarrow> JUndefined | Some v \<Rightarrow> v),
            url = (case map_of (body req) ''url'' of None \<Rightarrow> JUndefined | Some v \<Rightarrow> v),
            imageUrl =
              (case map_of (body req) ''imageUrl'' of None \<Rightarrow> JUndefined | Some v \<Rightarrow> v),
            publishedAt = Some (now env)\<rparr>"
    by (simp add: newNews_def body_field_lookup)
  show "calls (snd (post_news env req w)) =
      calls w @ [VerifyIdToken t, NewsSave (newNews env req)]"
    by (simp add: post_news_valid [OF assms] split: option.splits)
next
  fix doc
  assume h: "NewsSchema env (newNews env req) = Some doc \<and> save_error env doc = None"
  then show "fst (post_news env req w) =
        \<lparr>status = 201, json = JsonMessage ''News added successfully!''\<rparr>"
    and "store (snd (post_news env req w)) = store w @ [doc]"
    by (simp_all add: post_news_valid [OF assms])
  from h have ns: "NewsSchema env (newNews env req) = Some doc"
    by simp
  show "stored_as env (body_field req ''title'') (title doc)"
    and "stored_as env (body_field req ''description'') (description doc)"
    and "stored_as env (body_field req ''url'') (url doc)"
    and "stored_as env (body_field req ''imageUrl'') (imageUrl doc)"
    and "publishedAt doc = Some (now env)"
    using NewsSchema_Some [OF ns] by (simp_all add: newNews_def stored_as_cast)
next
  assume h: "NewsSchema env (newNews env req) = None \<or>
    (\<exists>doc e. NewsSchema env (newNews env req) = Some doc \<and> save_error env doc = Some e)"
  then show "fst (post_news env req w) = \<lparr>status = 500, json = JsonError ''Failed to add news''\<rparr>"
    by (auto simp add: post_news_valid [OF assms])
  from h show "store (snd (post_news env req w)) = store w"
    by (auto simp add: post_news_valid [OF assms])
next
  assume "text_or_absent (body_field req ''title'') \<and>
    text_or_absent (body_field req ''description'') \<and>
    text_or_absent (body_field req ''url'') \<and>
    text_or_absent (body_field req ''imageUrl'')"
  then show "NewsSchema env (newNews env req) = Some (newNews env req)"
    by (simp add: NewsSchema_text newNews_def)
qed

theorem post_news_no_body_validation_witness:
  "fst (post_news sample_env req_title_only sample_world) =
     \<lparr>status = 201, json = JsonMessage ''News added successfully!''\<rparr> \<and>
   store (snd (post_news sample_env req_title_only sample_world)) =
     [old_article,
      \<lparr>title = JStr ''Only a title'', description = JUndefined, url = JUndefined,
       imageUrl = JUndefined, publishedAt = Some 1704240000000\<rparr>] \<and>
   fst (post_news env_save_fails req_title_only sample_world) =
     \<lparr>status = 500, json = JsonError ''Failed to add news''\<rparr> \<and>
   store (snd (post_news env_save_fails req_title_only sample_world)) = [old_article] \<and>
   fst (post_news sample_env req_object_title sample_world) =
     \<lparr>status = 500, json = JsonError ''Failed to add news''\<rparr> \<and>
   store (snd (post_news sample_env req_object_title sample_world)) = [old_article]"
proof -
  let ?doc = "\<lparr>title = JStr ''Only a title'', description = JUndefined, url = JUndefined,
       imageUrl = JUndefined, publishedAt = Some 1704240000000\<rparr>"
  have h: "header_token (authorization req_title_only) = Some ''good''"
    "header_token (authorization req_object_title) = Some ''good''"
    by (simp_all add: req_title_only_def req_object_title_def header_token_def)
  have n: "''good'' \<noteq> []"
    by simp
  have v1: "verifyIdToken sample_env ''good'' = Inr (JObj [(''uid'', JStr ''u1'')])"
    by (simp add: sample_env_def)
  have v2: "verifyIdToken env_save_fails ''good'' = Inr (JObj [(''uid'', JStr ''u1'')])"
    by (simp add: env_save_fails_def sample_env_def)
  have n1: "newNews sample_env req_title_only = ?doc"
    by (simp add: newNews_def body_field_def req_title_only_def sample_env_def)
  have n2: "newNews env_save_fails req_title_only = ?doc"
    by (simp add: newNews_def body_field_def req_title_only_def env_save_fails_def sample_env_def)
  have c1: "NewsSchema sample_env ?doc = Some ?doc" "NewsSchema env_save_fails ?doc = Some ?doc"
    by (simp_all add: NewsSchema_def cast_String_def cast_Date_def)
  have c3: "NewsSchema sample_env (newNews sample_env req_object_title) = None"
    by (simp add: NewsSchema_def cast_String_def newNews_def body_field_def req_object_title_def
        sample_env_def sample_castString_def)
  have s1: "save_error sample_env ?doc = None"
    by (simp add: sample_env_def)
  have s2: "save_error env_save_fails ?doc = Some (Rejected ''store down'')"
    by (simp add: env_save_fails_def)
  have w: "store sample_world = [old_article]"
    by (simp add: sample_world_def)
  have A: "fst (post_news sample_env req_title_only sample_world) =
      \<lparr>status = 201, json = JsonMessage ''News added successfully!''\<rparr> \<and>
     store (snd (post_news sample_env req_title_only sample_world)) = store sample_world @ [?doc]"
    using post_news_no_body_validation [OF h(1) n v1, of sample_world] s1 c1(1)
    unfolding n1 by blast
  have B: "fst (post_news env_save_fails req_title_only sample_world) =
      \<lparr>status = 500, json = JsonError ''Failed to add news''\<rparr> \<and>
     store (snd (post_news env_save_fails req_title_only sample_world)) = store sample_world"
    using post_news_no_body_validation [OF h(1) n v2, of sample_world] s2 c1(2)
    unfolding n2 by blast
  have C: "fst (post_news sample_env req_object_title sample_world) =
      \<lparr>status = 500, json = JsonError ''Failed to add news''\<rparr> \<and>
     store (snd (post_news sample_env req_object_title sample_world)) = store sample_world"
    using post_news_no_body_validation [OF h(2) n v1, of sample_world] c3
    by blast
  show ?thesis
    using A B C unfolding w by simp
qed

end
